theory Spec2Isabelle
  imports Main
begin

section \<open>Constants of the server\<close>

text \<open>
  The constants of \<^verbatim>\<open>swechain-mcp-server.go\<close>. Durations are counted in milliseconds:
  \<^verbatim>\<open>time.Second\<close> is 1000 and \<^verbatim>\<open>requestDelay\<close> (500 ms) is 500. The per-attempt
  timeout of 30 s only decides when a hanging attempt is reported as failed, which is part
  of the attempt's outcome below.
\<close>

definition pageLimit :: nat where
  "pageLimit = 50"

definition maxPages :: nat where
  "maxPages = 10"

definition requestDelay :: nat where
  "requestDelay = 500"

definition maxRetries :: nat where
  "maxRetries = 3"

definition second :: nat where
  "second = 1000"

section \<open>Strings\<close>

text \<open>
  A Go string is a sequence of bytes and \<^verbatim>\<open>len\<close> counts bytes, so a string is a
  \<^typ>\<open>char list\<close> (an Isabelle \<^typ>\<open>char\<close> is a byte).
\<close>

definition HasPrefix :: "string \<Rightarrow> string \<Rightarrow> bool" where
  "HasPrefix s p = (length p \<le> length s \<and> take (length p) s = p)"

text \<open>
  \<^verbatim>\<open>strings.TrimSpace\<close> removes the leading and the trailing runes that
  \<^verbatim>\<open>unicode.IsSpace\<close> accepts. Those are the six ASCII characters tab, line feed,
  vertical tab, form feed, carriage return and space, and the code points U+0085, U+00A0,
  U+1680, U+2000 to U+200A, U+2028, U+2029, U+202F, U+205F and U+3000; \<open>spaceRunes\<close>
  lists their UTF-8 encodings. A rune decodes to one of them exactly when the bytes at that
  place are its encoding, so trimming removes these byte sequences from the front, then
  from the back of what is left.
\<close>

definition spaceRunes :: "string list" where
  "spaceRunes =
    [[CHR 0x09], [CHR 0x0A], [CHR 0x0B], [CHR 0x0C], [CHR 0x0D], [CHR 0x20],
     [CHR 0xC2, CHR 0x85], [CHR 0xC2, CHR 0xA0],
     [CHR 0xE1, CHR 0x9A, CHR 0x80],
     [CHR 0xE2, CHR 0x80, CHR 0x80], [CHR 0xE2, CHR 0x80, CHR 0x81],
     [CHR 0xE2, CHR 0x80, CHR 0x82], [CHR 0xE2, CHR 0x80, CHR 0x83],
     [CHR 0xE2, CHR 0x80, CHR 0x84], [CHR 0xE2, CHR 0x80, CHR 0x85],
     [CHR 0xE2, CHR 0x80, CHR 0x86], [CHR 0xE2, CHR 0x80, CHR 0x87],
     [CHR 0xE2, CHR 0x80, CHR 0x88], [CHR 0xE2, CHR 0x80, CHR 0x89],
     [CHR 0xE2, CHR 0x80, CHR 0x8A],
     [CHR 0xE2, CHR 0x80, CHR 0xA8], [CHR 0xE2, CHR 0x80, CHR 0xA9],
     [CHR 0xE2, CHR 0x80, CHR 0xAF], [CHR 0xE2, CHR 0x81, CHR 0x9F],
     [CHR 0xE3, CHR 0x80, CHR 0x80]]"

definition spaceWidth :: "string list \<Rightarrow> string \<Rightarrow> nat" where
  "spaceWidth encs s =
     (case find (\<lambda>e. HasPrefix s e) encs of None \<Rightarrow> 0 | Some e \<Rightarrow> length e)"

function trimLeftFunc :: "string list \<Rightarrow> string \<Rightarrow> string" where
  "trimLeftFunc encs s =
     (if s \<noteq> [] \<and> 0 < spaceWidth encs s
      then trimLeftFunc encs (drop (spaceWidth encs s) s)
      else s)"
  by pat_completeness auto
termination
  by (relation "measure (\<lambda>(encs, s). length s)") auto

declare trimLeftFunc.simps [simp del]

definition TrimSpace :: "string \<Rightarrow> string" where
  "TrimSpace s =
     rev (trimLeftFunc (map rev spaceRunes) (rev (trimLeftFunc spaceRunes s)))"

text \<open>
  \<^verbatim>\<open>strconv.Itoa\<close> and the verb \<^verbatim>\<open>%d\<close>: the decimal numeral of an integer.
\<close>

definition digitChar :: "nat \<Rightarrow> char" where
  "digitChar d = ''0123456789'' ! d"

function natToString :: "nat \<Rightarrow> string" where
  "natToString n =
     (if n < 10 then [digitChar n] else natToString (n div 10) @ [digitChar (n mod 10)])"
  by pat_completeness auto
termination
  by (relation "measure id") auto

declare natToString.simps [simp del]

definition Itoa :: "int \<Rightarrow> string" where
  "Itoa n = (if n < 0 then CHR ''-'' # natToString (nat (- n)) else natToString (nat n))"

text \<open>
  \<^verbatim>\<open>strconv.Atoi\<close> on a 64-bit platform, with the functions of \<^verbatim>\<open>strconv\<close> it
  is made of. Each returns a value and an error (\<open>None\<close> is \<^verbatim>\<open>nil\<close>).

  \<^verbatim>\<open>ParseUint(s, 10, 64)\<close> reads the bytes from the left. A byte that is not a decimal
  digit is a syntax error with value 0. A digit that takes the number read so far beyond
  \<open>2\<^sup>6\<^sup>4 - 1\<close> is a range error with that bound as value, returned at once: the bytes
  after it are not read. The arithmetic is that of \<^verbatim>\<open>uint64\<close>.
\<close>

datatype NumError = ErrSyntax | ErrRange

definition isDigit :: "char \<Rightarrow> bool" where
  "isDigit c = (48 \<le> (of_char c :: nat) \<and> (of_char c :: nat) \<le> 57)"

definition maxUint64 :: int where
  "maxUint64 = 2 ^ 64 - 1"

fun ParseUint_loop :: "int \<Rightarrow> string \<Rightarrow> int \<times> NumError option" where
  "ParseUint_loop n [] = (n, None)"
| "ParseUint_loop n (c # cs) =
     (if \<not> isDigit c then (0, Some ErrSyntax)
      else if maxUint64 div 10 + 1 \<le> n then (maxUint64, Some ErrRange)
      else (let n10 = (n * 10) mod 2 ^ 64;
                n1 = (n10 + ((of_char c :: int) - 48)) mod 2 ^ 64
            in if n1 < n10 \<or> maxUint64 < n1 then (maxUint64, Some ErrRange)
               else ParseUint_loop n1 cs))"

definition ParseUint :: "string \<Rightarrow> int \<times> NumError option" where
  "ParseUint s = (if s = [] then (0, Some ErrSyntax) else ParseUint_loop 0 s)"

text \<open>
  \<^verbatim>\<open>ParseInt(s, 10, 0)\<close> takes a leading sign off, reads the rest with
  \<^verbatim>\<open>ParseUint\<close>, passes a syntax error on with value 0, and brings a value outside
  the range of \<^verbatim>\<open>int64\<close> to the nearest bound with a range error.
\<close>

definition ParseInt :: "string \<Rightarrow> int \<times> NumError option" where
  "ParseInt s =
     (if s = [] then (0, Some ErrSyntax)
      else (let neg = (hd s = CHR ''-'');
                s1 = (if hd s = CHR ''+'' \<or> hd s = CHR ''-'' then tl s else s);
                un = fst (ParseUint s1);
                err = snd (ParseUint s1)
            in if err = Some ErrSyntax then (0, Some ErrSyntax)
               else if \<not> neg \<and> 2 ^ 63 \<le> un then (2 ^ 63 - 1, Some ErrRange)
               else if neg \<and> 2 ^ 63 < un then (- (2 ^ 63), Some ErrRange)
               else (if neg then - un else un, None)))"

text \<open>
  \<^verbatim>\<open>Atoi\<close> has a fast path for a text of 1 to 18 bytes, which cannot leave the range
  of \<^verbatim>\<open>int\<close>: a sign is taken off, every byte must be a digit (the test is
  \<^verbatim>\<open>ch -= '0'; ch > 9\<close> on a byte), and the digits are summed up. Every other text
  goes to \<^verbatim>\<open>ParseInt\<close>.
\<close>

fun Atoi_loop :: "int \<Rightarrow> string \<Rightarrow> int option" where
  "Atoi_loop n [] = Some n"
| "Atoi_loop n (c # cs) =
     (let ch = ((of_char c :: int) - 48) mod 256
      in if 9 < ch then None else Atoi_loop (n * 10 + ch) cs)"

definition Atoi :: "string \<Rightarrow> int \<times> NumError option" where
  "Atoi s =
     (if 0 < length s \<and> length s < 19 then
        (let s1 = (if hd s = CHR ''-'' \<or> hd s = CHR ''+'' then tl s else s)
         in if (hd s = CHR ''-'' \<or> hd s = CHR ''+'') \<and> length s1 < 1
            then (0, Some ErrSyntax)
            else (case Atoi_loop 0 s1 of
                    None \<Rightarrow> (0, Some ErrSyntax)
                  | Some n \<Rightarrow> (if hd s = CHR ''-'' then - n else n, None)))
      else ParseInt s)"

text \<open>\<^verbatim>\<open>strings.ToLower\<close> on the ASCII letters, which is all the handlers compare against.\<close>

definition lowerChar :: "char \<Rightarrow> char" where
  "lowerChar c =
     (if 65 \<le> (of_char c :: nat) \<and> (of_char c :: nat) \<le> 90
      then char_of ((of_char c :: nat) + 32) else c)"

section \<open>The external executable and the world\<close>

text \<open>
  One run of the executable either exits with status zero, leaving its standard output, or
  fails (a non-zero exit, a start failure or the 30 s timeout), leaving the text of the
  error, the standard output and the standard error.

  The world is the trace of what the server has done to its environment so far:
  \<open>Exec i cmd\<close> is attempt number \<open>i\<close> (from 0) of \<^verbatim>\<open>runCommand\<close> running the command
  line \<open>cmd\<close>, and \<open>Sleep ms\<close> is a \<^verbatim>\<open>time.Sleep\<close>. The executable is outside the
  program, so its behaviour is a parameter: \<open>exec\<close> gives the outcome of a run from the
  trace before it and the command line. The log lines are not modelled.
\<close>

datatype attempt = Exited string | Failed string string string

datatype event = Exec nat "string list" | Sleep nat

type_synonym world = "event list"

fun commandFailed :: "string \<Rightarrow> string \<Rightarrow> string \<Rightarrow> string" where
  "commandFailed err out errout =
     ''command failed: '' @ err @ [CHR 0x0A] @ ''STDOUT: '' @ out @ [CHR 0x0A] @
     ''STDERR: '' @ errout"

text \<open>
  \<^verbatim>\<open>runCommand\<close>: the loop \<^verbatim>\<open>for i := 0; i < maxRetries; i++\<close>, with the loop
  variable and \<^verbatim>\<open>lastErr\<close> as arguments. The result is Go's pair of the output and
  the error (\<open>None\<close> is \<^verbatim>\<open>nil\<close>).
\<close>

function runCommand_loop ::
  "(world \<Rightarrow> string list \<Rightarrow> attempt) \<Rightarrow> string \<Rightarrow> string list \<Rightarrow> nat \<Rightarrow> string option \<Rightarrow> world
     \<Rightarrow> (string \<times> string option) \<times> world" where
  "runCommand_loop ex name arg i lastErr w =
     (if i < maxRetries then
        (case ex w (name # arg) of
           Exited out \<Rightarrow> ((TrimSpace out, None), w @ [Exec i (name # arg)])
         | Failed err out errout \<Rightarrow>
             runCommand_loop ex name arg (i + 1) (Some (commandFailed err out errout))
               (if i < maxRetries - 1
                then w @ [Exec i (name # arg), Sleep ((i + 1) * second)]
                else w @ [Exec i (name # arg)]))
      else (('''', lastErr), w))"
  by pat_completeness auto
termination
  by (relation "measure (\<lambda>(ex, name, arg, i, lastErr, w). maxRetries - i)") auto

declare runCommand_loop.simps [simp del]

definition runCommand ::
  "(world \<Rightarrow> string list \<Rightarrow> attempt) \<Rightarrow> string \<Rightarrow> string list \<Rightarrow> world
     \<Rightarrow> (string \<times> string option) \<times> world" where
  "runCommand ex name arg w = runCommand_loop ex name arg 0 None w"

text \<open>\<^verbatim>\<open>isValidCosmosAddress\<close>.\<close>

definition isValidCosmosAddress :: "string \<Rightarrow> bool" where
  "isValidCosmosAddress addr =
     (HasPrefix (TrimSpace addr) ''cosmos1'' \<and> 39 \<le> length (TrimSpace addr) \<and>
      length (TrimSpace addr) \<le> 45)"

section \<open>Decoded JSON\<close>

text \<open>
  What \<^verbatim>\<open>encoding/json\<close> decodes into an \<^verbatim>\<open>interface{}\<close>: \<open>JNull\<close> is the
  \<^verbatim>\<open>nil\<close> interface, \<open>JArray\<close> is \<^verbatim>\<open>[]interface{}\<close> and \<open>JObject\<close> is
  \<^verbatim>\<open>map[string]interface{}\<close>, held as an association list in the order of its keys
  (the order in which \<^verbatim>\<open>fmt\<close> prints a map). A number is a \<^verbatim>\<open>float64\<close>; the
  server only ever prints it with \<^verbatim>\<open>%v\<close>, so \<open>JNumber\<close> holds the text that
  \<^verbatim>\<open>%v\<close> prints for it.
\<close>

datatype jvalue =
    JNull
  | JBool bool
  | JNumber string
  | JString string
  | JArray "jvalue list"
  | JObject "(string \<times> jvalue) list"

type_synonym jobject = "(string \<times> jvalue) list"

text \<open>\<^verbatim>\<open>m[key]\<close> on a map: the \<^verbatim>\<open>nil\<close> interface when the key is missing.\<close>

definition index :: "jobject \<Rightarrow> string \<Rightarrow> jvalue" where
  "index m k = (case map_of m k of None \<Rightarrow> JNull | Some v \<Rightarrow> v)"

text \<open>The type assertions \<^verbatim>\<open>.([]interface{})\<close>, \<^verbatim>\<open>.(map[string]interface{})\<close>
  and \<^verbatim>\<open>.(string)\<close>; \<open>None\<close> is \<^verbatim>\<open>ok == false\<close>.\<close>

fun asArray :: "jvalue \<Rightarrow> jvalue list option" where
  "asArray (JArray vs) = Some vs"
| "asArray v = None"

fun asObject :: "jvalue \<Rightarrow> jobject option" where
  "asObject (JObject m) = Some m"
| "asObject v = None"

fun asString :: "jvalue \<Rightarrow> string option" where
  "asString (JString s) = Some s"
| "asString v = None"

text \<open>\<^verbatim>\<open>fmt.Sprintf("%v", v)\<close>.\<close>

fun sprintv :: "jvalue \<Rightarrow> string"
  and sprintvList :: "jvalue list \<Rightarrow> string"
  and sprintvFields :: "(string \<times> jvalue) list \<Rightarrow> string" where
  "sprintv JNull = ''<nil>''"
| "sprintv (JBool b) = (if b then ''true'' else ''false'')"
| "sprintv (JNumber s) = s"
| "sprintv (JString s) = s"
| "sprintv (JArray vs) = ''['' @ sprintvList vs @ '']''"
| "sprintv (JObject kvs) = ''map['' @ sprintvFields kvs @ '']''"
| "sprintvList [] = []"
| "sprintvList [v] = sprintv v"
| "sprintvList (v # v' # vs) = sprintv v @ '' '' @ sprintvList (v' # vs)"
| "sprintvFields [] = []"
| "sprintvFields [(k, v)] = k @ '':'' @ sprintv v"
| "sprintvFields ((k, v) # kv # kvs) = k @ '':'' @ sprintv v @ '' '' @ sprintvFields (kv # kvs)"

section \<open>Data structures\<close>

text \<open>
  The structs of the server. Field names are prefixed with the struct they belong to, and
  the anonymous \<^verbatim>\<open>Details\<close> structs of the responses are flattened into the response.
\<close>

record Key =
  key_Name :: string
  key_Address :: string

record Auction =
  auction_ID :: int
  auction_Issue :: string
  auction_Description :: string
  auction_Status :: string
  auction_Winner :: string
  auction_Creator :: string

record Bid =
  bid_AuctionID :: int
  bid_Amount :: string
  bid_Description :: string
  bid_Creator :: string
  bid_Bidder :: string

record Balance =
  balance_Denom :: string
  balance_Amount :: string

record DenomOwner =
  owner_Address :: string
  owner_Balance :: Balance

record BidDetail =
  bd_Bidder :: string
  bd_Amount :: string
  bd_Description :: string

record AuctionDetail =
  ad_AuctionID :: int
  ad_Issue :: string
  ad_Creator :: string
  ad_Description :: string
  ad_Status :: string
  ad_Winner :: string
  ad_CurrentBidAmount :: string
  ad_Bids :: "BidDetail list"

record ParticipantDetail =
  pd_Name :: string
  pd_Address :: string
  pd_Balance :: string

record AuctionSummaryResponse =
  asr_Summary :: string
  asr_Auctions :: "AuctionDetail list"
  asr_Participants :: "ParticipantDetail list"

record KeySummaryResponse =
  ksr_Summary :: string
  ksr_Keys :: "Key list"

record BlockchainStatusResponse =
  bsr_Summary :: string
  bsr_TotalAuctions :: int
  bsr_OpenAuctions :: int
  bsr_TotalBids :: int
  bsr_TotalKeys :: int
  bsr_TokenHolders :: int

record BalanceResponse =
  br_Summary :: string
  br_Address :: string
  br_Balances :: "Balance list"

record OpenAuctionParams =
  oa_Issue :: string
  oa_Description :: string
  oa_Status :: string
  oa_Winner :: string
  oa_From :: string

record CreateBidParams =
  cb_AuctionId :: string
  cb_Bidder :: string
  cb_Amount :: string
  cb_Description :: string
  cb_From :: string

record PayParams =
  pay_From :: string
  pay_To :: string
  pay_Amount :: string

record CloseAuctionParams =
  ca_AuctionId :: string
  ca_Status :: string
  ca_Issue :: string
  ca_Description :: string
  ca_Winner :: string
  ca_From :: string

text \<open>
  What is outside the program: the path found for \<^verbatim>\<open>swechaind\<close> at start-up, the
  behaviour of the executable, and the two uses of \<^verbatim>\<open>json.Unmarshal\<close> (into a
  \<^verbatim>\<open>map[string]interface{}\<close> and into a \<^verbatim>\<open>[]Key\<close>), which give the text of the
  error (\<open>Inl\<close>) or the decoded value (\<open>Inr\<close>).
\<close>

record env =
  swechaindCmd :: string
  exec :: "world \<Rightarrow> string list \<Rightarrow> attempt"
  unmarshalObject :: "string \<Rightarrow> string + jobject"
  unmarshalKeys :: "string \<Rightarrow> string + Key list"

section \<open>Record parsers\<close>

text \<open>
  \<^verbatim>\<open>parseAuctions\<close> and \<^verbatim>\<open>parseBids\<close>: one typed record per raw record, in order.
  The error of \<^verbatim>\<open>strconv.Atoi\<close> is dropped and its value kept.
\<close>

fun parseAuctions :: "jobject list \<Rightarrow> Auction list" where
  "parseAuctions [] = []"
| "parseAuctions (raw # rawData) =
     \<lparr>auction_ID = fst (Atoi (sprintv (index raw ''id''))),
      auction_Issue = sprintv (index raw ''issue''),
      auction_Description = sprintv (index raw ''description''),
      auction_Status = sprintv (index raw ''status''),
      auction_Winner = sprintv (index raw ''winner''),
      auction_Creator = sprintv (index raw ''creator'')\<rparr> # parseAuctions rawData"

fun parseBids :: "jobject list \<Rightarrow> Bid list" where
  "parseBids [] = []"
| "parseBids (raw # rawData) =
     \<lparr>bid_AuctionID = fst (Atoi (sprintv (index raw ''auctionId''))),
      bid_Amount = sprintv (index raw ''amount''),
      bid_Description = sprintv (index raw ''description''),
      bid_Creator = sprintv (index raw ''creator''),
      bid_Bidder = sprintv (index raw ''bidder'')\<rparr> # parseBids rawData"

section \<open>Aggregation\<close>

definition extractNameFromAddress :: "string \<Rightarrow> string" where
  "extractNameFromAddress address =
     (if 12 \<le> length address then take 5 (drop 7 address) else address)"

text \<open>
  The inner loop of \<^verbatim>\<open>buildAuctionSummaryResponse\<close> over the bids, with its two
  variables \<^verbatim>\<open>auctionBids\<close> and \<^verbatim>\<open>currentBidAmount\<close> as arguments.
\<close>

fun bidsLoop :: "Auction \<Rightarrow> Bid list \<Rightarrow> BidDetail list \<Rightarrow> string \<Rightarrow> BidDetail list \<times> string" where
  "bidsLoop auction [] auctionBids currentBidAmount = (auctionBids, currentBidAmount)"
| "bidsLoop auction (bid # bids) auctionBids currentBidAmount =
     (if bid_AuctionID bid = auction_ID auction
      then bidsLoop auction bids
             (auctionBids @
                [\<lparr>bd_Bidder = bid_Bidder bid, bd_Amount = bid_Amount bid,
                  bd_Description = bid_Description bid\<rparr>])
             (bid_Amount bid)
      else bidsLoop auction bids auctionBids currentBidAmount)"

text \<open>The outer loop over the auctions, with \<^verbatim>\<open>auctionDetails\<close> as argument.\<close>

fun auctionsLoop :: "Auction list \<Rightarrow> Bid list \<Rightarrow> AuctionDetail list \<Rightarrow> AuctionDetail list" where
  "auctionsLoop [] bids auctionDetails = auctionDetails"
| "auctionsLoop (auction # auctions) bids auctionDetails =
     (case bidsLoop auction bids [] ''0token'' of
        (auctionBids, currentBidAmount) \<Rightarrow>
          auctionsLoop auctions bids
            (auctionDetails @
               [\<lparr>ad_AuctionID = auction_ID auction,
                 ad_Issue = auction_Issue auction,
                 ad_Creator = auction_Creator auction,
                 ad_Description = auction_Description auction,
                 ad_Status = auction_Status auction,
                 ad_Winner = auction_Winner auction,
                 ad_CurrentBidAmount = currentBidAmount,
                 ad_Bids = auctionBids\<rparr>]))"

fun participantsLoop :: "DenomOwner list \<Rightarrow> ParticipantDetail list \<Rightarrow> ParticipantDetail list" where
  "participantsLoop [] participants = participants"
| "participantsLoop (owner # owners) participants =
     participantsLoop owners
       (participants @
          [\<lparr>pd_Name = extractNameFromAddress (owner_Address owner),
            pd_Address = owner_Address owner,
            pd_Balance = balance_Amount (owner_Balance owner) @ '' '' @
                         balance_Denom (owner_Balance owner)\<rparr>])"

text \<open>The loop that counts the details with at least one bid.\<close>

fun bidCountLoop :: "AuctionDetail list \<Rightarrow> int \<Rightarrow> int" where
  "bidCountLoop [] bidCount = bidCount"
| "bidCountLoop (detail # details) bidCount =
     (if 0 < length (ad_Bids detail) then bidCountLoop details (bidCount + 1)
      else bidCountLoop details bidCount)"

definition buildAuctionSummaryResponse ::
  "Auction list \<Rightarrow> Bid list \<Rightarrow> DenomOwner list \<Rightarrow> string \<Rightarrow> AuctionSummaryResponse" where
  "buildAuctionSummaryResponse auctions bids owners auctionType =
     (let auctionDetails = auctionsLoop auctions bids [];
          participants = participantsLoop owners [];
          summary =
            (if auctionType = ''open'' then
               (let bidCount = bidCountLoop auctionDetails 0
                in if length auctions = 0 then ''No open auctions found.''
                   else ''There are '' @ Itoa (int (length auctions)) @ '' open auctions ('' @
                        Itoa bidCount @ '' with bids, '' @
                        Itoa (int (length auctions) - bidCount) @ '' without bids).'')
             else ''There are '' @ Itoa (int (length auctions)) @ '' total auctions with '' @
                  Itoa (int (length bids)) @ '' total bids.'')
      in \<lparr>asr_Summary = summary, asr_Auctions = auctionDetails,
          asr_Participants = participants\<rparr>)"

section \<open>Fetching\<close>

text \<open>
  \<^verbatim>\<open>fetchPaginatedData\<close>: the loop \<^verbatim>\<open>for offset/pageLimit < maxPages\<close>, with
  \<^verbatim>\<open>offset\<close> and \<^verbatim>\<open>allResults\<close> as arguments. Every \<^verbatim>\<open>break\<close> returns what has been
  accumulated.
\<close>

definition pageArgs :: "string \<Rightarrow> string \<Rightarrow> nat \<Rightarrow> string list" where
  "pageArgs module query offset =
     [''query'', module, query, ''--keyring-backend'', ''test'', ''--output'', ''json'',
      ''--page-offset'', Itoa (int offset), ''--page-limit'', Itoa (int pageLimit)]"

fun resultMaps :: "jvalue list \<Rightarrow> jobject list" where
  "resultMaps [] = []"
| "resultMaps (result # results) =
     (case asObject result of
        Some resultMap \<Rightarrow> resultMap # resultMaps results
      | None \<Rightarrow> resultMaps results)"

function fetchPaginatedData_loop ::
  "env \<Rightarrow> string \<Rightarrow> string \<Rightarrow> string \<Rightarrow> nat \<Rightarrow> jobject list \<Rightarrow> world \<Rightarrow> jobject list \<times> world" where
  "fetchPaginatedData_loop e module query dataKey offset allResults w =
     (if offset div pageLimit < maxPages then
        (case runCommand (exec e) (swechaindCmd e) (pageArgs module query offset) w of
           ((output, Some err), w1) \<Rightarrow> (allResults, w1)
         | ((output, None), w1) \<Rightarrow>
             (case unmarshalObject e output of
                Inl err \<Rightarrow> (allResults, w1)
              | Inr responseData \<Rightarrow>
                  (case asArray (index responseData dataKey) of
                     None \<Rightarrow> (allResults, w1)
                   | Some results \<Rightarrow>
                       if length results = 0 then (allResults, w1)
                       else fetchPaginatedData_loop e module query dataKey (offset + pageLimit)
                              (allResults @ resultMaps results) (w1 @ [Sleep requestDelay]))))
      else (allResults, w))"
  by pat_completeness auto
termination
  by (relation "measure (\<lambda>(e, module, query, dataKey, offset, allResults, w).
        maxPages * pageLimit - offset)")
    (auto simp: pageLimit_def maxPages_def)

declare fetchPaginatedData_loop.simps [simp del]

definition fetchPaginatedData ::
  "env \<Rightarrow> string \<Rightarrow> string \<Rightarrow> string \<Rightarrow> world \<Rightarrow> jobject list \<times> world" where
  "fetchPaginatedData e module query dataKey w =
     fetchPaginatedData_loop e module query dataKey 0 [] w"

text \<open>The loop of \<^verbatim>\<open>fetchDenomOwners\<close> over the raw owners; \<^verbatim>\<open>continue\<close> skips one.\<close>

fun denomOwnersLoop :: "jvalue list \<Rightarrow> DenomOwner list" where
  "denomOwnersLoop [] = []"
| "denomOwnersLoop (raw # rawDenomOwners) =
     (case asObject raw of
        None \<Rightarrow> denomOwnersLoop rawDenomOwners
      | Some rawMap \<Rightarrow>
          (case asObject (index rawMap ''balance'') of
             None \<Rightarrow> denomOwnersLoop rawDenomOwners
           | Some balanceRaw \<Rightarrow>
               \<lparr>owner_Address = sprintv (index rawMap ''address''),
                owner_Balance =
                  \<lparr>balance_Denom = sprintv (index balanceRaw ''denom''),
                   balance_Amount = sprintv (index balanceRaw ''amount'')\<rparr>\<rparr>
               # denomOwnersLoop rawDenomOwners))"

definition fetchDenomOwners :: "env \<Rightarrow> world \<Rightarrow> DenomOwner list \<times> world" where
  "fetchDenomOwners e w =
     (case runCommand (exec e) (swechaindCmd e)
             [''query'', ''bank'', ''denom-owners'', ''token'', ''--keyring-backend'', ''test'',
              ''--output'', ''json''] w of
        ((output, Some err), w1) \<Rightarrow> ([], w1)
      | ((output, None), w1) \<Rightarrow>
          (case unmarshalObject e output of
             Inl err \<Rightarrow> ([], w1)
           | Inr responseData \<Rightarrow>
               (case asArray (index responseData ''denom_owners'') of
                  None \<Rightarrow> ([], w1)
                | Some rawDenomOwners \<Rightarrow> (denomOwnersLoop rawDenomOwners, w1))))"

definition getKeys :: "env \<Rightarrow> world \<Rightarrow> Key list \<times> world" where
  "getKeys e w =
     (case runCommand (exec e) (swechaindCmd e)
             [''keys'', ''list'', ''--keyring-backend'', ''test'', ''--output'', ''json''] w of
        ((output, Some err), w1) \<Rightarrow> ([], w1)
      | ((output, None), w1) \<Rightarrow>
          (case unmarshalKeys e output of
             Inl err \<Rightarrow> ([], w1)
           | Inr keys \<Rightarrow> (keys, w1)))"

text \<open>
  \<^verbatim>\<open>getAddressForKey\<close> and \<^verbatim>\<open>getBalanceForAddress\<close> return Go's pair of a value and
  an error; the error is its text.
\<close>

definition getAddressForKey :: "env \<Rightarrow> string \<Rightarrow> world \<Rightarrow> (string \<times> string option) \<times> world" where
  "getAddressForKey e keyName w =
     (case runCommand (exec e) (swechaindCmd e)
             [''keys'', ''show'', keyName, ''--keyring-backend'', ''test'', ''--output'', ''json''] w of
        ((output, Some err), w1) \<Rightarrow> (('''', Some (''failed to get key info: '' @ err)), w1)
      | ((output, None), w1) \<Rightarrow>
          (case unmarshalObject e output of
             Inl err \<Rightarrow> (('''', Some (''failed to parse key data: '' @ err)), w1)
           | Inr keyData \<Rightarrow>
               (case asString (index keyData ''address'') of
                  None \<Rightarrow> (('''', Some ''address not found in key data''), w1)
                | Some address \<Rightarrow>
                    if \<not> isValidCosmosAddress address
                    then (('''', Some (''invalid cosmos address format: '' @ address)), w1)
                    else ((address, None), w1))))"

fun balancesLoop :: "jvalue list \<Rightarrow> Balance list" where
  "balancesLoop [] = []"
| "balancesLoop (raw # rawBalances) =
     (case asObject raw of
        None \<Rightarrow> balancesLoop rawBalances
      | Some rawMap \<Rightarrow>
          \<lparr>balance_Denom = sprintv (index rawMap ''denom''),
           balance_Amount = sprintv (index rawMap ''amount'')\<rparr> # balancesLoop rawBalances)"

definition getBalanceForAddress ::
  "env \<Rightarrow> string \<Rightarrow> world \<Rightarrow> (Balance list \<times> string option) \<times> world" where
  "getBalanceForAddress e address w =
     (case runCommand (exec e) (swechaindCmd e)
             [''query'', ''bank'', ''balances'', address, ''--keyring-backend'', ''test'',
              ''--output'', ''json''] w of
        ((output, Some err), w1) \<Rightarrow> (([], Some (''failed to query balance: '' @ err)), w1)
      | ((output, None), w1) \<Rightarrow>
          (case unmarshalObject e output of
             Inl err \<Rightarrow> (([], Some (''failed to parse balance data: '' @ err)), w1)
           | Inr responseData \<Rightarrow>
               (case asArray (index responseData ''balances'') of
                  None \<Rightarrow> (([], None), w1)
                | Some rawBalances \<Rightarrow> ((balancesLoop rawBalances, None), w1))))"

section \<open>Tool handlers\<close>

text \<open>
  A handler returns one text content. It is either a plain text (\<open>Text\<close>: an error message
  or the output of the executable) or the value that the handler passes to
  \<^verbatim>\<open>json.MarshalIndent\<close>; the marshalled text itself is not modelled. The protocol error
  of a handler is always \<^verbatim>\<open>nil\<close>. \<^verbatim>\<open>strings.ToLower\<close> is only compared with the
  words \<^verbatim>\<open>all\<close> and \<^verbatim>\<open>open\<close>, which no letter outside ASCII lowers to, so it is
  applied to the ASCII letters.
\<close>

datatype content =
    Text string
  | AddressJSON string string string
  | BalanceJSON BalanceResponse
  | AuctionJSON AuctionSummaryResponse
  | BidsJSON string "Bid list"
  | StatusJSON BlockchainStatusResponse
  | KeysJSON KeySummaryResponse

definition ToLower :: "string \<Rightarrow> string" where
  "ToLower s = map lowerChar s"

definition txFlags :: "string \<Rightarrow> string list" where
  "txFlags from =
     [''--from'', from, ''--keyring-backend'', ''test'', ''--chain-id'', ''swechain'',
      ''--fees'', ''200token'', ''--yes'', ''--output'', ''json'']"

definition getAddressForKeyHandler :: "env \<Rightarrow> string \<Rightarrow> world \<Rightarrow> content \<times> world" where
  "getAddressForKeyHandler e KeyName w =
     (let keyName = TrimSpace KeyName
      in if keyName = '''' then
           (Text ''Error: keyName parameter is required and cannot be empty.'', w)
         else
           (case getAddressForKey e keyName w of
              ((address, Some err), w1) \<Rightarrow>
                (Text (''Error getting address for key '' @ keyName @ '': '' @ err), w1)
            | ((address, None), w1) \<Rightarrow>
                (AddressJSON
                   (''Address for key '' @ [CHR 0x27] @ keyName @ [CHR 0x27] @ '': '' @ address)
                   keyName address, w1)))"

definition getBalanceHandler :: "env \<Rightarrow> string \<Rightarrow> world \<Rightarrow> content \<times> world" where
  "getBalanceHandler e Address w =
     (let address = TrimSpace Address
      in if address = '''' then
           (Text ''Error: address parameter is required and cannot be empty.'', w)
         else if \<not> isValidCosmosAddress address then
           (Text ''Error: address must be a valid cosmos address (cosmos1...).'', w)
         else
           (case getBalanceForAddress e address w of
              ((balances, Some err), w1) \<Rightarrow>
                (Text (''Error getting balance for address '' @ address @ '': '' @ err), w1)
            | ((balances, None), w1) \<Rightarrow>
                (let totalBalance = (if 0 < length balances then balance_Amount (balances ! 0)
                                     else ''0'');
                     denom = (if 0 < length balances then balance_Denom (balances ! 0)
                              else ''token'')
                 in (BalanceJSON
                       \<lparr>br_Summary = ''Address '' @ address @ '' has '' @ totalBalance @ '' '' @ denom,
                        br_Address = address,
                        br_Balances = balances\<rparr>, w1))))"

definition isOpen :: "Auction \<Rightarrow> bool" where
  "isOpen auction = (ToLower (TrimSpace (auction_Status auction)) = ''open'')"

definition queryOpenAuctionsHandler :: "env \<Rightarrow> string \<Rightarrow> world \<Rightarrow> content \<times> world" where
  "queryOpenAuctionsHandler e Operation w =
     (case fetchPaginatedData e ''issuemarket'' ''list-auction'' ''Auction'' w of
        (rawAuctions, w1) \<Rightarrow>
          (case fetchPaginatedData e ''issuemarket'' ''list-bid'' ''Bid'' w1 of
             (rawBids, w2) \<Rightarrow>
               (case fetchDenomOwners e w2 of
                  (owners, w3) \<Rightarrow>
                    (AuctionJSON
                       (buildAuctionSummaryResponse
                          (filter isOpen (parseAuctions rawAuctions))
                          (parseBids rawBids) owners ''open''), w3))))"

definition queryAllAuctionsHandler :: "env \<Rightarrow> string \<Rightarrow> world \<Rightarrow> content \<times> world" where
  "queryAllAuctionsHandler e Operation w =
     (case fetchPaginatedData e ''issuemarket'' ''list-auction'' ''Auction'' w of
        (rawAuctions, w1) \<Rightarrow>
          (case fetchPaginatedData e ''issuemarket'' ''list-bid'' ''Bid'' w1 of
             (rawBids, w2) \<Rightarrow>
               (case fetchDenomOwners e w2 of
                  (owners, w3) \<Rightarrow>
                    (AuctionJSON
                       (buildAuctionSummaryResponse (parseAuctions rawAuctions)
                          (parseBids rawBids) owners ''all''), w3))))"

definition queryBidsForAuctionHandler :: "env \<Rightarrow> string \<Rightarrow> world \<Rightarrow> content \<times> world" where
  "queryBidsForAuctionHandler e AuctionId w =
     (let auctionId = TrimSpace AuctionId
      in if auctionId = '''' then
           (Text (''Error: auctionId parameter is required. Use specific auction ID or '' @
                  [CHR 0x27] @ ''all'' @ [CHR 0x27] @ '' for all bids.''), w)
         else
           (case fetchPaginatedData e ''issuemarket'' ''list-bid'' ''Bid'' w of
              (rawBids, w1) \<Rightarrow>
                (let bids = parseBids rawBids
                 in if ToLower auctionId \<noteq> ''all'' then
                      (case Atoi auctionId of
                         (auctionIdInt, Some err) \<Rightarrow>
                           (Text (''Error: invalid auctionId '' @ [CHR 0x27] @ auctionId @
                                  [CHR 0x27] @ ''. Must be a number or '' @ [CHR 0x27] @
                                  ''all'' @ [CHR 0x27] @ ''.''), w1)
                       | (auctionIdInt, None) \<Rightarrow>
                           (let filteredBids = filter (\<lambda>bid. bid_AuctionID bid = auctionIdInt) bids
                            in (BidsJSON
                                  (''Found '' @ Itoa (int (length filteredBids)) @
                                   '' bids for auction '' @ auctionId)
                                  filteredBids, w1)))
                    else
                      (BidsJSON
                         (''Found '' @ Itoa (int (length bids)) @
                          '' total bids across all auctions'')
                         bids, w1))))"

definition getBlockchainStatusHandler :: "env \<Rightarrow> string \<Rightarrow> world \<Rightarrow> content \<times> world" where
  "getBlockchainStatusHandler e Operation w =
     (case fetchPaginatedData e ''issuemarket'' ''list-auction'' ''Auction'' w of
        (rawAuctions, w1) \<Rightarrow>
          (case fetchPaginatedData e ''issuemarket'' ''list-bid'' ''Bid'' w1 of
             (rawBids, w2) \<Rightarrow>
               (case fetchDenomOwners e w2 of
                  (owners, w3) \<Rightarrow>
                    (case getKeys e w3 of
                       (keys, w4) \<Rightarrow>
                         (let auctions = parseAuctions rawAuctions;
                              bids = parseBids rawBids;
                              openCount = int (length (filter isOpen auctions))
                          in (StatusJSON
                                \<lparr>bsr_Summary =
                                   ''Blockchain has '' @ Itoa (int (length auctions)) @
                                   '' total auctions ('' @ Itoa openCount @ '' open), '' @
                                   Itoa (int (length bids)) @ '' bids, '' @
                                   Itoa (int (length keys)) @ '' keys, and '' @
                                   Itoa (int (length owners)) @ '' token holders'',
                                 bsr_TotalAuctions = int (length auctions),
                                 bsr_OpenAuctions = openCount,
                                 bsr_TotalBids = int (length bids),
                                 bsr_TotalKeys = int (length keys),
                                 bsr_TokenHolders = int (length owners)\<rparr>, w4))))))"

definition getKeysHandler :: "env \<Rightarrow> string \<Rightarrow> world \<Rightarrow> content \<times> world" where
  "getKeysHandler e Operation w =
     (case getKeys e w of
        (keys, w1) \<Rightarrow>
          (KeysJSON
             \<lparr>ksr_Summary = ''Found '' @ Itoa (int (length keys)) @ '' keys in the keyring'',
              ksr_Keys = keys\<rparr>, w1))"

text \<open>
  The four handlers that submit a transaction end alike: they run the executable and
  return its output, or the error and the output after a message.
\<close>

definition runTx :: "env \<Rightarrow> string list \<Rightarrow> string \<Rightarrow> world \<Rightarrow> content \<times> world" where
  "runTx e args failure w =
     (case runCommand (exec e) (swechaindCmd e) args w of
        ((output, Some err), w1) \<Rightarrow>
          (Text (failure @ err @ [CHR 0x0A] @ ''Output: '' @ output), w1)
      | ((output, None), w1) \<Rightarrow> (Text output, w1))"

definition openAuctionHandler :: "env \<Rightarrow> OpenAuctionParams \<Rightarrow> world \<Rightarrow> content \<times> world" where
  "openAuctionHandler e p w =
     (let issue = TrimSpace (oa_Issue p);
          description = TrimSpace (oa_Description p);
          from = TrimSpace (oa_From p)
      in if issue = '''' then
           (Text (''Error: '' @ [CHR 0x27] @ ''issue'' @ [CHR 0x27] @
                  '' parameter is required and cannot be empty.''), w)
         else if description = '''' then
           (Text (''Error: '' @ [CHR 0x27] @ ''description'' @ [CHR 0x27] @
                  '' parameter is required and cannot be empty.''), w)
         else if from = '''' then
           (Text (''Error: '' @ [CHR 0x27] @ ''from'' @ [CHR 0x27] @
                  '' parameter is required and cannot be empty.''), w)
         else if \<not> isValidCosmosAddress from then
           (Text (''Error: '' @ [CHR 0x27] @ ''from'' @ [CHR 0x27] @
                  '' must be a valid cosmos address (cosmos1...).''), w)
         else
           (let status = (if TrimSpace (oa_Status p) = '''' then ''open''
                          else TrimSpace (oa_Status p));
                winner = TrimSpace (oa_Winner p)
            in runTx e
                 ([''tx'', ''issuemarket'', ''create-auction'', issue, description, status, winner]
                  @ txFlags from)
                 ''Failed to create auction: '' w))"

definition createBidHandler :: "env \<Rightarrow> CreateBidParams \<Rightarrow> world \<Rightarrow> content \<times> world" where
  "createBidHandler e p w =
     (let auctionId = TrimSpace (cb_AuctionId p);
          bidder = TrimSpace (cb_Bidder p);
          from = TrimSpace (cb_From p)
      in if auctionId = '''' then
           (Text (''Error: '' @ [CHR 0x27] @ ''auctionId'' @ [CHR 0x27] @
                  '' parameter is required.''), w)
         else if bidder = '''' then
           (Text (''Error: '' @ [CHR 0x27] @ ''bidder'' @ [CHR 0x27] @
                  '' parameter is required.''), w)
         else if from = '''' then
           (Text (''Error: '' @ [CHR 0x27] @ ''from'' @ [CHR 0x27] @
                  '' parameter is required.''), w)
         else if \<not> isValidCosmosAddress bidder then
           (Text (''Error: '' @ [CHR 0x27] @ ''bidder'' @ [CHR 0x27] @
                  '' must be a valid cosmos address (cosmos1...).''), w)
         else if \<not> isValidCosmosAddress from then
           (Text (''Error: '' @ [CHR 0x27] @ ''from'' @ [CHR 0x27] @
                  '' must be a valid cosmos address (cosmos1...).''), w)
         else if snd (Atoi auctionId) \<noteq> None then
           (Text (''Error: '' @ [CHR 0x27] @ ''auctionId'' @ [CHR 0x27] @
                  '' must be a valid number.''), w)
         else
           (let amount = (if TrimSpace (cb_Amount p) = '''' then ''100token''
                          else TrimSpace (cb_Amount p));
                description = (if TrimSpace (cb_Description p) = ''''
                               then ''Bid for auction '' @ auctionId
                               else TrimSpace (cb_Description p))
            in runTx e
                 ([''tx'', ''issuemarket'', ''create-bid'', auctionId, bidder, amount, description]
                  @ txFlags from)
                 ''Failed to create bid: '' w))"

definition payHandler :: "env \<Rightarrow> PayParams \<Rightarrow> world \<Rightarrow> content \<times> world" where
  "payHandler e p w =
     (let from = TrimSpace (pay_From p);
          to = TrimSpace (pay_To p);
          amount = TrimSpace (pay_Amount p)
      in if from = '''' \<or> to = '''' \<or> amount = '''' then
           (Text (''Error: '' @ [CHR 0x27] @ ''from'' @ [CHR 0x27] @ '', '' @
                  [CHR 0x27] @ ''to'' @ [CHR 0x27] @ '', and '' @
                  [CHR 0x27] @ ''amount'' @ [CHR 0x27] @ '' parameters are all required.''), w)
         else if \<not> isValidCosmosAddress from then
           (Text (''Error: '' @ [CHR 0x27] @ ''from'' @ [CHR 0x27] @
                  '' must be a valid cosmos address.''), w)
         else if \<not> isValidCosmosAddress to then
           (Text (''Error: '' @ [CHR 0x27] @ ''to'' @ [CHR 0x27] @
                  '' must be a valid cosmos address.''), w)
         else
           runTx e ([''tx'', ''bank'', ''send'', from, to, amount] @ txFlags from)
             ''Payment failed: '' w)"

definition closeAuctionHandler :: "env \<Rightarrow> CloseAuctionParams \<Rightarrow> world \<Rightarrow> content \<times> world" where
  "closeAuctionHandler e p w =
     (let auctionId = TrimSpace (ca_AuctionId p);
          status = TrimSpace (ca_Status p);
          from = TrimSpace (ca_From p)
      in if auctionId = '''' \<or> status = '''' \<or> from = '''' then
           (Text (''Error: '' @ [CHR 0x27] @ ''auctionId'' @ [CHR 0x27] @ '', '' @
                  [CHR 0x27] @ ''status'' @ [CHR 0x27] @ '', and '' @
                  [CHR 0x27] @ ''from'' @ [CHR 0x27] @ '' parameters are required.''), w)
         else if \<not> isValidCosmosAddress from then
           (Text (''Error: '' @ [CHR 0x27] @ ''from'' @ [CHR 0x27] @
                  '' must be a valid cosmos address.''), w)
         else if snd (Atoi auctionId) \<noteq> None then
           (Text (''Error: '' @ [CHR 0x27] @ ''auctionId'' @ [CHR 0x27] @
                  '' must be a valid number.''), w)
         else
           runTx e
             ([''tx'', ''issuemarket'', ''update-auction'', auctionId,
               TrimSpace (ca_Issue p), TrimSpace (ca_Description p), status,
               TrimSpace (ca_Winner p)] @ txFlags from)
             ''Failed to close auction: '' w)"

section \<open>Notions used to state the properties\<close>

text \<open>
  The trace that \<open>n\<close> failed attempts of one \<^verbatim>\<open>runCommand\<close> leave behind, each followed
  by its back-off sleep, and the time slept in a trace.
\<close>

fun failedAttempts :: "string list \<Rightarrow> nat \<Rightarrow> event list" where
  "failedAttempts cmd 0 = []"
| "failedAttempts cmd (Suc n) = failedAttempts cmd n @ [Exec n cmd, Sleep ((n + 1) * second)]"

fun slept :: "event list \<Rightarrow> nat" where
  "slept [] = 0"
| "slept (Exec i cmd # es) = slept es"
| "slept (Sleep ms # es) = ms + slept es"

fun isFailed :: "attempt \<Rightarrow> bool" where
  "isFailed (Failed err out errout) = True"
| "isFailed (Exited out) = False"

text \<open>An executable that fails twice with a refused connection and then answers.\<close>

definition flaky :: "world \<Rightarrow> string list \<Rightarrow> attempt" where
  "flaky w cmd =
     (if length w < 4 then Failed ''exit status 1'' [] ''connection refused''
      else Exited '' {}  '')"

text \<open>
  The bids of an auction and the view of a bid inside an auction. For the text of an
  identifier: the text without its sign, whether the text is a decimal numeral (an optional
  sign and at least one digit, nothing else), the number that a string of digits stands
  for, and the digits that the text starts with after its sign.
\<close>

definition matchingBids :: "Auction \<Rightarrow> Bid list \<Rightarrow> Bid list" where
  "matchingBids auction bids = filter (\<lambda>bid. bid_AuctionID bid = auction_ID auction) bids"

definition bidDetail :: "Bid \<Rightarrow> BidDetail" where
  "bidDetail bid =
     \<lparr>bd_Bidder = bid_Bidder bid, bd_Amount = bid_Amount bid,
      bd_Description = bid_Description bid\<rparr>"

definition unsigned :: "string \<Rightarrow> string" where
  "unsigned s = (if s \<noteq> [] \<and> (hd s = CHR ''+'' \<or> hd s = CHR ''-'') then tl s else s)"

definition numeric :: "string \<Rightarrow> bool" where
  "numeric s = (unsigned s \<noteq> [] \<and> list_all isDigit (unsigned s))"

fun digitsValue :: "int \<Rightarrow> string \<Rightarrow> int" where
  "digitsValue n [] = n"
| "digitsValue n (c # cs) = digitsValue (n * 10 + ((of_char c :: int) - 48)) cs"

definition leadingDigits :: "string \<Rightarrow> string" where
  "leadingDigits s = takeWhile isDigit (unsigned s)"

text \<open>Sample records for concrete instances.\<close>

definition sampleAuction :: "int \<Rightarrow> Auction" where
  "sampleAuction n =
     \<lparr>auction_ID = n, auction_Issue = ''issue'', auction_Description = ''fix it'',
      auction_Status = ''open'', auction_Winner = '''', auction_Creator = ''cosmos1creator''\<rparr>"

definition sampleBid :: "int \<Rightarrow> string \<Rightarrow> Bid" where
  "sampleBid n amount =
     \<lparr>bid_AuctionID = n, bid_Amount = amount, bid_Description = ''my bid'',
      bid_Creator = ''cosmos1creator'', bid_Bidder = ''cosmos1bidder''\<rparr>"

text \<open>
  An executable that answers every command with the same text, together with a
  \<^verbatim>\<open>json.Unmarshal\<close> that is given on that text only (with its decoding) and rejects
  every other text. The texts used below and their decodings follow.
\<close>

definition constEnv :: "string \<Rightarrow> jobject \<Rightarrow> env" where
  "constEnv text obj =
     \<lparr>swechaindCmd = ''/usr/local/bin/swechaind'',
      exec = (\<lambda>w cmd. Exited text),
      unmarshalObject = (\<lambda>s. if s = text then Inr obj else Inl ''invalid character''),
      unmarshalKeys = (\<lambda>s. Inl ''cannot unmarshal object into Go value of type []main.Key'')\<rparr>"

definition balancesText :: string where
  \<open>balancesText =
     ''{"balances":[{"denom":"token","amount":"100"},{"denom":"stake","amount":"5"}]}''\<close>

definition balancesObject :: jobject where
  "balancesObject =
     [(''balances'',
       JArray [JObject [(''amount'', JString ''100''), (''denom'', JString ''token'')],
               JObject [(''amount'', JString ''5''), (''denom'', JString ''stake'')]])]"

definition noBalancesText :: string where
  \<open>noBalancesText = ''{"balances":[],"pagination":{"total":"0"}}''\<close>

definition noBalancesObject :: jobject where
  "noBalancesObject =
     [(''balances'', JArray []), (''pagination'', JObject [(''total'', JString ''0'')])]"

text \<open>
  One page as \<^verbatim>\<open>fetchPaginatedData\<close> sees it: the command failed after its retries,
  its output did not decode to a JSON object, the array under the key is absent or empty,
  or it holds results. \<open>fetchPage\<close> reads the page at an offset the way one iteration
  of the loop does.
\<close>

datatype page = PageFailed | PageUndecoded | PageEnd | PageResults "jvalue list"

definition fetchPage ::
  "env \<Rightarrow> string \<Rightarrow> string \<Rightarrow> string \<Rightarrow> nat \<Rightarrow> world \<Rightarrow> page \<times> world" where
  "fetchPage e module query dataKey offset w =
     (case runCommand (exec e) (swechaindCmd e) (pageArgs module query offset) w of
        ((output, Some err), w1) \<Rightarrow> (PageFailed, w1)
      | ((output, None), w1) \<Rightarrow>
          (case unmarshalObject e output of
             Inl err \<Rightarrow> (PageUndecoded, w1)
           | Inr responseData \<Rightarrow>
               (case asArray (index responseData dataKey) of
                  None \<Rightarrow> (PageEnd, w1)
                | Some results \<Rightarrow>
                    if results = [] then (PageEnd, w1) else (PageResults results, w1))))"

text \<open>
  \<open>pagesRead \<dots> n w\<close> is \<open>Some (pages, w')\<close> when the first \<open>n\<close> pages, read from the
  world \<open>w\<close> at the offsets \<open>0\<close>, \<open>pageLimit\<close>, \<open>2 * pageLimit\<close>, \<dots> with the request
  delay after each, all hold results: \<open>pages\<close> are their result arrays in order and \<open>w'\<close>
  is the world afterwards.
\<close>

fun pagesRead ::
  "env \<Rightarrow> string \<Rightarrow> string \<Rightarrow> string \<Rightarrow> nat \<Rightarrow> world \<Rightarrow> (jvalue list list \<times> world) option" where
  "pagesRead e module query dataKey 0 w = Some ([], w)"
| "pagesRead e module query dataKey (Suc n) w =
     (case pagesRead e module query dataKey n w of
        None \<Rightarrow> None
      | Some (pages, w1) \<Rightarrow>
          (case fetchPage e module query dataKey (n * pageLimit) w1 of
             (PageResults results, w2) \<Rightarrow> Some (pages @ [results], w2 @ [Sleep requestDelay])
           | (other, w2) \<Rightarrow> None))"

text \<open>The records accumulated from pages, and the commands of the first attempts in a trace
  (one for each call of \<^verbatim>\<open>runCommand\<close>).\<close>

definition recordsOf :: "jvalue list list \<Rightarrow> jobject list" where
  "recordsOf pages = concat (map resultMaps pages)"

fun firstAttempts :: "event list \<Rightarrow> string list list" where
  "firstAttempts [] = []"
| "firstAttempts (Exec i cmd # es) = (if i = 0 then cmd # firstAttempts es else firstAttempts es)"
| "firstAttempts (Sleep ms # es) = firstAttempts es"

fun isObject :: "jvalue \<Rightarrow> bool" where
  "isObject (JObject m) = True"
| "isObject v = False"

text \<open>
  Page sources for concrete instances. The text of a page of \<open>n\<close> equal bid records and
  its decoding; \<open>sourceEnv known answer\<close> is an executable that answers a page query by
  its offset (the tenth word of the command line) with \<open>answer\<close>, and a
  \<^verbatim>\<open>json.Unmarshal\<close> that is given on the page texts of the sizes in \<open>known\<close> and
  rejects every other text.
\<close>

fun joinWith :: "string \<Rightarrow> string list \<Rightarrow> string" where
  "joinWith sep [] = []"
| "joinWith sep [x] = x"
| "joinWith sep (x # y # ys) = x @ sep @ joinWith sep (y # ys)"

definition bidRecordText :: string where
  \<open>bidRecordText = ''{"auctionId":"1","amount":"5token"}''\<close>

definition bidRecord :: jobject where
  "bidRecord = [(''amount'', JString ''5token''), (''auctionId'', JString ''1'')]"

definition bidPageText :: "nat \<Rightarrow> string" where
  \<open>bidPageText n = ''{"Bid":['' @ joinWith '','' (replicate n bidRecordText) @ '']}''\<close>

definition bidPageObject :: "nat \<Rightarrow> jobject" where
  "bidPageObject n = [(''Bid'', JArray (replicate n (JObject bidRecord)))]"

definition sourceEnv :: "nat list \<Rightarrow> (string \<Rightarrow> attempt) \<Rightarrow> env" where
  "sourceEnv known answer =
     \<lparr>swechaindCmd = ''/usr/local/bin/swechaind'',
      exec = (\<lambda>w cmd. answer (cmd ! 9)),
      unmarshalObject =
        (\<lambda>s. case find (\<lambda>n. s = bidPageText n) known of
                Some n \<Rightarrow> Inr (bidPageObject n)
              | None \<Rightarrow> Inl ''invalid character''),
      unmarshalKeys = (\<lambda>s. Inl ''cannot unmarshal object into Go value of type []main.Key'')\<rparr>"

text \<open>A source with one record on every page, whatever the offset.\<close>

definition loopingSource :: env where
  "loopingSource = sourceEnv [1] (\<lambda>offset. Exited (bidPageText 1))"

text \<open>A source with 150 records: full pages at the offsets 0, 50 and 100, empty pages after.\<close>

definition threePageSource :: env where
  "threePageSource =
     sourceEnv [50, 0]
       (\<lambda>offset. if offset = ''0'' \<or> offset = ''50'' \<or> offset = ''100''
                 then Exited (bidPageText 50) else Exited (bidPageText 0))"

text \<open>A source with a full page at every offset.\<close>

definition endlessSource :: env where
  "endlessSource = sourceEnv [50] (\<lambda>offset. Exited (bidPageText 50))"

text \<open>A source whose first page holds one record and whose later pages fail to run.\<close>

definition failingSource :: env where
  "failingSource =
     sourceEnv [1]
       (\<lambda>offset. if offset = ''0'' then Exited (bidPageText 1)
                 else Failed ''exit status 1'' [] ''rpc error: connection refused'')"

text \<open>A source whose first page holds one record and whose later pages are not JSON.\<close>

definition garbledSource :: env where
  "garbledSource =
     sourceEnv [1]
       (\<lambda>offset. if offset = ''0'' then Exited (bidPageText 1)
                 else Exited ''upstream connect error'')"

section \<open>The command runner\<close>

lemma slept_append: "slept (xs @ ys) = slept xs + slept ys"
  by (induction xs rule: slept.induct) auto

lemma slept_failedAttempts: "slept (failedAttempts cmd n) = (\<Sum>i = 1..n. i) * second"
  by (induction n) (auto simp: slept_append algebra_simps)

lemma runCommand_loop_failed:
  assumes "n < maxRetries"
    and "\<And>j. j < n \<Longrightarrow> isFailed (ex (w @ failedAttempts (name # arg) j) (name # arg))"
  shows "\<exists>lastErr. runCommand_loop ex name arg 0 None w =
           runCommand_loop ex name arg n lastErr (w @ failedAttempts (name # arg) n)"
  using assms
proof (induction n)
  case 0
  then show ?case by auto
next
  case (Suc n)
  from Suc.prems have n: "n < maxRetries - 1" by simp
  from Suc.prems have "n < maxRetries" by simp
  with Suc obtain lastErr where
    eq: "runCommand_loop ex name arg 0 None w =
           runCommand_loop ex name arg n lastErr (w @ failedAttempts (name # arg) n)"
    by (metis less_Suc_eq)
  from Suc.prems(2)[of n]
  obtain err out errout where
    f: "ex (w @ failedAttempts (name # arg) n) (name # arg) = Failed err out errout"
    by (cases "ex (w @ failedAttempts (name # arg) n) (name # arg)") auto
  have "runCommand_loop ex name arg n lastErr (w @ failedAttempts (name # arg) n) =
          runCommand_loop ex name arg (Suc n) (Some (commandFailed err out errout))
            (w @ failedAttempts (name # arg) (Suc n))"
    using n f \<open>n < maxRetries\<close>
    by (simp add: runCommand_loop.simps[of ex name arg n])
  with eq show ?case by metis
qed

text \<open>
  C3. When the first \<open>k - 1\<close> attempts of a \<^verbatim>\<open>runCommand\<close> fail and attempt \<open>k\<close> exits
  with status zero, for \<open>1 \<le> k \<le> 3\<close>, the call returns the standard output of attempt
  \<open>k\<close> with the surrounding white space trimmed and no error. The trace it leaves is the
  \<open>k - 1\<close> failed attempts, attempt \<open>i\<close> (counted from 1) followed by a sleep of \<open>i\<close>
  seconds, and then the successful attempt; the sleeps add up to \<open>1 + \<dots> + (k - 1)\<close>
  seconds.
\<close>

theorem runCommand_retry_success:
  assumes "1 \<le> k" and "k \<le> maxRetries"
    and "\<forall>j<k - 1. isFailed (ex (w @ failedAttempts (name # arg) j) (name # arg))"
    and "ex (w @ failedAttempts (name # arg) (k - 1)) (name # arg) = Exited out"
  shows "runCommand ex name arg w =
           ((TrimSpace out, None),
            w @ failedAttempts (name # arg) (k - 1) @ [Exec (k - 1) (name # arg)]) \<and>
         slept (failedAttempts (name # arg) (k - 1)) = (\<Sum>i = 1..k - 1. i) * second"
proof -
  from assms have lt: "k - 1 < maxRetries" by simp
  with assms(3) obtain lastErr where
    "runCommand_loop ex name arg 0 None w =
       runCommand_loop ex name arg (k - 1) lastErr (w @ failedAttempts (name # arg) (k - 1))"
    using runCommand_loop_failed[of "k - 1" ex w name arg] by blast
  moreover have "runCommand_loop ex name arg (k - 1) lastErr
        (w @ failedAttempts (name # arg) (k - 1)) =
      ((TrimSpace out, None),
       w @ failedAttempts (name # arg) (k - 1) @ [Exec (k - 1) (name # arg)])"
    by (subst runCommand_loop.simps) (use lt assms(4) in simp)
  ultimately show ?thesis
    by (simp add: runCommand_def slept_failedAttempts)
qed

lemma TrimSpace_braces: "TrimSpace '' {}  '' = ''{}''"
  by (simp add: TrimSpace_def spaceRunes_def spaceWidth_def HasPrefix_def trimLeftFunc.simps)

theorem runCommand_retry_success_witness:
  "runCommand flaky ''swechaind'' [''keys'', ''list''] [] =
     ((''{}'', None),
      [Exec 0 [''swechaind'', ''keys'', ''list''], Sleep 1000,
       Exec 1 [''swechaind'', ''keys'', ''list''], Sleep 2000,
       Exec 2 [''swechaind'', ''keys'', ''list'']]) \<and>
   slept [Exec 0 [''swechaind'', ''keys'', ''list''], Sleep 1000,
       Exec 1 [''swechaind'', ''keys'', ''list''], Sleep 2000] = 3000"
proof -
  have k: "(1::nat) \<le> 3" "(3::nat) \<le> maxRetries" by (simp_all add: maxRetries_def)
  have fa: "failedAttempts [''swechaind'', ''keys'', ''list''] (3 - 1) =
     [Exec 0 [''swechaind'', ''keys'', ''list''], Sleep 1000,
       Exec 1 [''swechaind'', ''keys'', ''list''], Sleep 2000]"
    by (simp add: numeral_2_eq_2 second_def)
  have f: "\<forall>j<3 - 1. isFailed (flaky ([] @ failedAttempts [''swechaind'', ''keys'', ''list''] j)
              [''swechaind'', ''keys'', ''list''])"
    by (simp add: less_Suc_eq numeral_2_eq_2 flaky_def)
  have s: "flaky ([] @ failedAttempts [''swechaind'', ''keys'', ''list''] (3 - 1))
              [''swechaind'', ''keys'', ''list''] = Exited '' {}  ''"
    unfolding fa by (simp add: flaky_def)
  from runCommand_retry_success[of 3 flaky "[]" "''swechaind''" "[''keys'', ''list'']"
      "'' {}  ''", OF k f s]
  show ?thesis
    unfolding fa by (simp add: TrimSpace_braces second_def)
qed

section \<open>Address validation\<close>

lemma length_trimLeftFunc: "length (trimLeftFunc encs s) \<le> length s"
proof (induction encs s rule: trimLeftFunc.induct)
  case (1 encs s)
  show ?case
  proof (cases "s \<noteq> [] \<and> 0 < spaceWidth encs s")
    case True
    with 1 have "length (trimLeftFunc encs (drop (spaceWidth encs s) s))
        \<le> length (drop (spaceWidth encs s) s)"
      by simp
    with True show ?thesis by (simp add: trimLeftFunc.simps[of encs s])
  next
    case False
    then show ?thesis by (auto simp: trimLeftFunc.simps[of encs s])
  qed
qed

lemma length_TrimSpace: "length (TrimSpace s) \<le> length s"
  unfolding TrimSpace_def
  using length_trimLeftFunc[of "map rev spaceRunes" "rev (trimLeftFunc spaceRunes s)"]
    length_trimLeftFunc[of spaceRunes s] by simp

text \<open>
  C8. \<^verbatim>\<open>isValidCosmosAddress\<close> holds of a string exactly when the string, with the
  surrounding white space trimmed, starts with \<^verbatim>\<open>cosmos1\<close> and is 39 to 45 bytes long.
  So a trimmed string of 40 bytes with the prefix passes, a string of at most 38 bytes
  fails, and a string whose trimmed form lacks the prefix fails.
\<close>

theorem isValidCosmosAddress_iff:
  "(isValidCosmosAddress s \<longleftrightarrow>
      HasPrefix (TrimSpace s) ''cosmos1'' \<and> 39 \<le> length (TrimSpace s) \<and>
      length (TrimSpace s) \<le> 45) \<and>
   (HasPrefix (TrimSpace s) ''cosmos1'' \<and> length (TrimSpace s) = 40 \<longrightarrow>
      isValidCosmosAddress s) \<and>
   (length s \<le> 38 \<longrightarrow> \<not> isValidCosmosAddress s) \<and>
   (\<not> HasPrefix (TrimSpace s) ''cosmos1'' \<longrightarrow> \<not> isValidCosmosAddress s)"
  using length_TrimSpace[of s]
  by (auto simp: isValidCosmosAddress_def)

lemma TrimSpace_address40:
  "TrimSpace '' cosmos1qypqxpq9qcrsszg2pvxq6rs0zqg3yyc5a ''
     = ''cosmos1qypqxpq9qcrsszg2pvxq6rs0zqg3yyc5a''"
  by (simp add: TrimSpace_def spaceRunes_def spaceWidth_def HasPrefix_def trimLeftFunc.simps)

lemma TrimSpace_address_other:
  "TrimSpace ''osmo1qypqxpq9qcrsszg2pvxq6rs0zqg3yyc5abcd''
     = ''osmo1qypqxpq9qcrsszg2pvxq6rs0zqg3yyc5abcd''"
  by (simp add: TrimSpace_def spaceRunes_def spaceWidth_def HasPrefix_def trimLeftFunc.simps)

lemma TrimSpace_address38:
  "TrimSpace ''cosmos1qypqxpq9qcrsszg2pvxq6rs0zqg3yyc''
     = ''cosmos1qypqxpq9qcrsszg2pvxq6rs0zqg3yyc''"
  by (simp add: TrimSpace_def spaceRunes_def spaceWidth_def HasPrefix_def trimLeftFunc.simps)

theorem isValidCosmosAddress_iff_witness:
  "isValidCosmosAddress '' cosmos1qypqxpq9qcrsszg2pvxq6rs0zqg3yyc5a '' \<and>
   \<not> isValidCosmosAddress ''cosmos1qypqxpq9qcrsszg2pvxq6rs0zqg3yyc'' \<and>
   \<not> isValidCosmosAddress ''osmo1qypqxpq9qcrsszg2pvxq6rs0zqg3yyc5abcd''"
  using isValidCosmosAddress_iff[of "'' cosmos1qypqxpq9qcrsszg2pvxq6rs0zqg3yyc5a ''"]
    isValidCosmosAddress_iff[of "''cosmos1qypqxpq9qcrsszg2pvxq6rs0zqg3yyc''"]
    isValidCosmosAddress_iff[of "''osmo1qypqxpq9qcrsszg2pvxq6rs0zqg3yyc5abcd''"]
  by (simp add: TrimSpace_address40 TrimSpace_address38 TrimSpace_address_other HasPrefix_def)

section \<open>The join of auctions and bids\<close>

lemma bidsLoop_eq:
  "bidsLoop auction bids auctionBids currentBidAmount =
     (auctionBids @ map bidDetail (matchingBids auction bids),
      if matchingBids auction bids = [] then currentBidAmount
      else bid_Amount (last (matchingBids auction bids)))"
  by (induction bids arbitrary: auctionBids currentBidAmount)
    (auto simp: matchingBids_def bidDetail_def)

lemma auctionsLoop_eq:
  "auctionsLoop auctions bids auctionDetails =
     auctionDetails @
     map (\<lambda>auction.
            \<lparr>ad_AuctionID = auction_ID auction,
             ad_Issue = auction_Issue auction,
             ad_Creator = auction_Creator auction,
             ad_Description = auction_Description auction,
             ad_Status = auction_Status auction,
             ad_Winner = auction_Winner auction,
             ad_CurrentBidAmount =
               (if matchingBids auction bids = [] then ''0token''
                else bid_Amount (last (matchingBids auction bids))),
             ad_Bids = map bidDetail (matchingBids auction bids)\<rparr>) auctions"
  by (induction auctions arbitrary: auctionDetails) (simp_all add: bidsLoop_eq)

text \<open>
  C1. The auctions of the response are the input auctions in their order. The current bid
  amount of each is the amount of the last bid, in the order of the bid list, whose auction
  identifier is the identifier of the auction, and \<^verbatim>\<open>0token\<close> when no bid has it; its
  bids are exactly the bids with that identifier, in the order of the bid list.
\<close>

theorem buildAuctionSummaryResponse_join:
  "asr_Auctions (buildAuctionSummaryResponse auctions bids owners auctionType) =
     map (\<lambda>auction.
            \<lparr>ad_AuctionID = auction_ID auction,
             ad_Issue = auction_Issue auction,
             ad_Creator = auction_Creator auction,
             ad_Description = auction_Description auction,
             ad_Status = auction_Status auction,
             ad_Winner = auction_Winner auction,
             ad_CurrentBidAmount =
               (if matchingBids auction bids = [] then ''0token''
                else bid_Amount (last (matchingBids auction bids))),
             ad_Bids = map bidDetail (matchingBids auction bids)\<rparr>) auctions"
  by (simp add: buildAuctionSummaryResponse_def Let_def auctionsLoop_eq)

text \<open>The example of the specification: the last of two bids wins, no bid gives \<^verbatim>\<open>0token\<close>.\<close>

theorem buildAuctionSummaryResponse_join_example:
  "map ad_CurrentBidAmount
     (asr_Auctions
        (buildAuctionSummaryResponse [sampleAuction 1, sampleAuction 2]
           [sampleBid 1 ''5token'', sampleBid 1 ''9token''] [] ''open''))
     = [''9token'', ''0token''] \<and>
   map (map bd_Amount \<circ> ad_Bids)
     (asr_Auctions
        (buildAuctionSummaryResponse [sampleAuction 1, sampleAuction 2]
           [sampleBid 1 ''5token'', sampleBid 1 ''9token''] [] ''open''))
     = [[''5token'', ''9token''], []]"
  using buildAuctionSummaryResponse_join[of "[sampleAuction 1, sampleAuction 2]"
      "[sampleBid 1 ''5token'', sampleBid 1 ''9token'']" "[]" "''open''"]
  by (simp add: matchingBids_def bidDetail_def sampleAuction_def sampleBid_def)

section \<open>The summary sentence\<close>

lemma bidCountLoop_eq:
  "bidCountLoop details bidCount =
     bidCount + int (length (filter (\<lambda>detail. ad_Bids detail \<noteq> []) details))"
  by (induction details arbitrary: bidCount) auto

lemma bidCount_eq:
  "bidCountLoop (auctionsLoop auctions bids []) 0 =
     int (length (filter (\<lambda>auction. matchingBids auction bids \<noteq> []) auctions))"
proof -
  have "length (filter (\<lambda>detail. ad_Bids detail \<noteq> []) (auctionsLoop auctions bids [])) =
        length (filter (\<lambda>auction. matchingBids auction bids \<noteq> []) auctions)"
    by (induction auctions) (auto simp: auctionsLoop_eq)
  then show ?thesis by (simp add: bidCountLoop_eq)
qed

text \<open>
  C7. In mode \<^verbatim>\<open>open\<close> with no auction the summary is \<^verbatim>\<open>No open auctions found.\<close>;
  in mode \<^verbatim>\<open>open\<close> with \<open>N > 0\<close> auctions, \<open>B\<close> of which have a bid with their
  identifier, it is \<^verbatim>\<open>There are N open auctions (B with bids, N-B without bids).\<close>; in
  mode \<^verbatim>\<open>all\<close> it gives the number of auctions and the number of bids.
\<close>

theorem buildAuctionSummaryResponse_summary:
  "(auctionType = ''open'' \<and> auctions = [] \<longrightarrow>
      asr_Summary (buildAuctionSummaryResponse auctions bids owners auctionType) =
        ''No open auctions found.'') \<and>
   (auctionType = ''open'' \<and> auctions \<noteq> [] \<longrightarrow>
      asr_Summary (buildAuctionSummaryResponse auctions bids owners auctionType) =
        ''There are '' @ Itoa (int (length auctions)) @ '' open auctions ('' @
        Itoa (int (length (filter (\<lambda>auction. matchingBids auction bids \<noteq> []) auctions))) @
        '' with bids, '' @
        Itoa (int (length auctions) -
              int (length (filter (\<lambda>auction. matchingBids auction bids \<noteq> []) auctions))) @
        '' without bids).'') \<and>
   (auctionType = ''all'' \<longrightarrow>
      asr_Summary (buildAuctionSummaryResponse auctions bids owners auctionType) =
        ''There are '' @ Itoa (int (length auctions)) @ '' total auctions with '' @
        Itoa (int (length bids)) @ '' total bids.'')"
  by (simp add: buildAuctionSummaryResponse_def Let_def bidCount_eq)

lemma Itoa_small:
  "Itoa 0 = ''0''" "Itoa 1 = ''1''" "Itoa 2 = ''2''" "Itoa 3 = ''3''"
  by (simp_all add: Itoa_def natToString.simps digitChar_def)

theorem buildAuctionSummaryResponse_summary_witness:
  "asr_Summary (buildAuctionSummaryResponse [] [sampleBid 1 ''5token''] [] ''open'') =
     ''No open auctions found.'' \<and>
   asr_Summary
     (buildAuctionSummaryResponse [sampleAuction 1, sampleAuction 2, sampleAuction 3]
        [sampleBid 1 ''5token'', sampleBid 3 ''7token'', sampleBid 1 ''9token''] [] ''open'') =
     ''There are 3 open auctions (2 with bids, 1 without bids).'' \<and>
   asr_Summary
     (buildAuctionSummaryResponse [sampleAuction 1, sampleAuction 2, sampleAuction 3]
        [sampleBid 1 ''5token'', sampleBid 3 ''7token''] [] ''all'') =
     ''There are 3 total auctions with 2 total bids.''"
  using buildAuctionSummaryResponse_summary[of "''open''" "[]" "[sampleBid 1 ''5token'']" "[]"]
    buildAuctionSummaryResponse_summary[of "''open''"
      "[sampleAuction 1, sampleAuction 2, sampleAuction 3]"
      "[sampleBid 1 ''5token'', sampleBid 3 ''7token'', sampleBid 1 ''9token'']" "[]"]
    buildAuctionSummaryResponse_summary[of "''all''"
      "[sampleAuction 1, sampleAuction 2, sampleAuction 3]"
      "[sampleBid 1 ''5token'', sampleBid 3 ''7token'']" "[]"]
  by (simp add: matchingBids_def sampleAuction_def sampleBid_def Itoa_small)

section \<open>The record parsers\<close>

lemma of_char_int_bounds: "0 \<le> (of_char c :: int) \<and> (of_char c :: int) < 256"
proof -
  have "(of_char c :: int) = int (of_char c)" by (simp add: of_nat_of_char)
  moreover have "(of_char c :: nat) < 256" by simp
  ultimately show ?thesis by simp
qed

lemma isDigit_int: "isDigit c \<longleftrightarrow> 48 \<le> (of_char c :: int) \<and> (of_char c :: int) \<le> 57"
proof -
  have "(of_char c :: int) = int (of_char c)" by (simp add: of_nat_of_char)
  then show ?thesis by (simp add: isDigit_def)
qed

lemma byte_test: "9 < ((of_char c :: int) - 48) mod 256 \<longleftrightarrow> \<not> isDigit c"
proof (cases "48 \<le> (of_char c :: int)")
  case True
  with of_char_int_bounds[of c] have "((of_char c :: int) - 48) mod 256 = of_char c - 48"
    by simp
  with True show ?thesis by (auto simp: isDigit_int)
next
  case False
  have "((of_char c :: int) - 48) mod 256 = ((of_char c :: int) - 48 + 256) mod 256"
    by (simp only: mod_add_self2)
  also from False of_char_int_bounds[of c] have "\<dots> = of_char c - 48 + 256"
    by (intro mod_pos_pos_trivial) simp_all
  finally have "((of_char c :: int) - 48) mod 256 = of_char c - 48 + 256" .
  with False of_char_int_bounds[of c] show ?thesis by (auto simp: isDigit_int)
qed

lemma byte_digit: "isDigit c \<Longrightarrow> ((of_char c :: int) - 48) mod 256 = of_char c - 48"
  using of_char_int_bounds[of c] by (simp add: isDigit_int)

lemma Atoi_loop_Cons:
  "Atoi_loop n (c # cs) =
     (if \<not> isDigit c then None else Atoi_loop (n * 10 + ((of_char c :: int) - 48)) cs)"
proof (cases "isDigit c")
  case True
  have u: "Atoi_loop n (c # cs) =
     (if 9 < ((of_char c :: int) - 48) mod 256 then None
      else Atoi_loop (n * 10 + ((of_char c :: int) - 48) mod 256) cs)"
    by (simp only: Atoi_loop.simps Let_def)
  from True have a: "\<not> 9 < ((of_char c :: int) - 48) mod 256"
    by (simp only: byte_test simp_thms)
  from True have b: "((of_char c :: int) - 48) mod 256 = of_char c - 48"
    by (rule byte_digit)
  show ?thesis
    unfolding u using a True by (simp add: b)
next
  case False
  have u: "Atoi_loop n (c # cs) =
     (if 9 < ((of_char c :: int) - 48) mod 256 then None
      else Atoi_loop (n * 10 + ((of_char c :: int) - 48) mod 256) cs)"
    by (simp only: Atoi_loop.simps Let_def)
  from False have a: "9 < ((of_char c :: int) - 48) mod 256"
    by (simp only: byte_test simp_thms)
  show ?thesis
    unfolding u using a False by simp
qed


lemma Atoi_loop_eq:
  "Atoi_loop n cs = (if list_all isDigit cs then Some (digitsValue n cs) else None)"
proof (induction cs arbitrary: n)
  case Nil
  then show ?case by simp
next
  case (Cons c cs)
  show ?case
    using Cons.IH[of "n * 10 + (of_char c - 48)"] by (simp add: Atoi_loop_Cons del: Atoi_loop.simps)
qed

lemma digitsValue_bounds:
  "list_all isDigit ds \<Longrightarrow> 0 \<le> n \<Longrightarrow>
     n \<le> digitsValue n ds \<and> digitsValue n ds < (n + 1) * 10 ^ length ds"
proof (induction ds arbitrary: n)
  case Nil
  then show ?case by simp
next
  case (Cons c cs)
  from Cons.prems have d: "48 \<le> (of_char c :: int)" "(of_char c :: int) \<le> 57"
    by (simp_all add: isDigit_int)
  define m where "m = n * 10 + ((of_char c :: int) - 48)"
  from d Cons.prems have m: "0 \<le> m" "n \<le> m" "m + 1 \<le> (n + 1) * 10"
    by (simp_all add: m_def)
  from Cons.IH[of m] Cons.prems m
  have ih: "m \<le> digitsValue m cs" "digitsValue m cs < (m + 1) * 10 ^ length cs"
    by simp_all
  have "(m + 1) * 10 ^ length cs \<le> ((n + 1) * 10) * 10 ^ length cs"
    using m(3) by (intro mult_right_mono) simp_all
  then have "(m + 1) * 10 ^ length cs \<le> (n + 1) * 10 ^ length (c # cs)"
    by (simp add: mult.assoc)
  with ih(2) have "digitsValue m cs < (n + 1) * 10 ^ length (c # cs)" by linarith
  moreover from ih(1) m(2) have "n \<le> digitsValue m cs" by linarith
  ultimately show ?case unfolding m_def by simp
qed

lemma digitsValue_nonneg: "list_all isDigit ds \<Longrightarrow> 0 \<le> n \<Longrightarrow> 0 \<le> digitsValue n ds"
  using digitsValue_bounds[of ds n] by simp

lemma mod_wrap:
  fixes x m :: int
  assumes "0 \<le> x" and "x < 2 * m"
  shows "x mod m = (if x < m then x else x - m)"
proof (cases "x < m")
  case True
  with assms show ?thesis by simp
next
  case False
  have "x mod m = (x - m) mod m" by simp
  also from False assms have "\<dots> = x - m" by (intro mod_pos_pos_trivial) simp_all
  finally show ?thesis using False by simp
qed

lemma ParseUint_loop_digit:
  assumes "isDigit c" and "0 \<le> n" and "n \<le> maxUint64"
  shows "ParseUint_loop n (c # cs) =
           (if maxUint64 < n * 10 + ((of_char c :: int) - 48) then (maxUint64, Some ErrRange)
            else ParseUint_loop (n * 10 + ((of_char c :: int) - 48)) cs)"
proof -
  define d where "d = (of_char c :: int) - 48"
  from assms(1) have d: "0 \<le> d" "d \<le> 9" by (simp_all add: d_def isDigit_int)
  show ?thesis
  proof (cases "maxUint64 div 10 + 1 \<le> n")
    case True
    with d have "maxUint64 < n * 10 + d" by (simp add: maxUint64_def)
    with True assms(1) show ?thesis by (simp add: d_def)
  next
    case False
    then have n: "n * 10 \<le> 18446744073709551610" by (simp add: maxUint64_def)
    with assms(2) have n10: "(n * 10) mod 18446744073709551616 = n * 10" by simp
    have "0 \<le> n * 10 + d" "n * 10 + d < 2 * 2 ^ 64" using assms(2) d n by simp_all
    then have n1: "(n * 10 + d) mod 2 ^ 64 =
        (if n * 10 + d < 2 ^ 64 then n * 10 + d else n * 10 + d - 2 ^ 64)"
      by (rule mod_wrap)
    show ?thesis
    proof (cases "n * 10 + d < 2 ^ 64")
      case True
      with n1 have e: "(n * 10 + d) mod 18446744073709551616 = n * 10 + d" by simp
      from True have le: "\<not> maxUint64 < n * 10 + d" by (simp add: maxUint64_def)
      from False assms(1) le d show ?thesis
        by (simp add: Let_def n10 e d_def [symmetric])
    next
      case wrap: False
      with n1 have e: "(n * 10 + d) mod 18446744073709551616 =
          n * 10 + d - 18446744073709551616" by simp
      from wrap have gt: "maxUint64 < n * 10 + d" by (simp add: maxUint64_def)
      from wrap d have "n * 10 + d - 18446744073709551616 < n * 10" by simp
      with False assms(1) gt show ?thesis
        by (simp add: Let_def n10 e d_def [symmetric])
    qed
  qed
qed

lemma ParseUint_loop_syntax:
  assumes "\<not> list_all isDigit cs" and "0 \<le> n"
    and "digitsValue n (takeWhile isDigit cs) \<le> maxUint64"
  shows "ParseUint_loop n cs = (0, Some ErrSyntax)"
  using assms
proof (induction cs arbitrary: n)
  case Nil
  then show ?case by simp
next
  case (Cons c cs)
  show ?case
  proof (cases "isDigit c")
    case False
    then show ?thesis by simp
  next
    case True
    define m where "m = n * 10 + ((of_char c :: int) - 48)"
    from True have d: "48 \<le> (of_char c :: int)" by (simp add: isDigit_int)
    with Cons.prems(2) have m0: "0 \<le> m" "n \<le> m" by (simp_all add: m_def)
    from True Cons.prems(3) have v: "digitsValue m (takeWhile isDigit cs) \<le> maxUint64"
      by (simp add: m_def)
    have "list_all isDigit (takeWhile isDigit cs)"
      by (induction cs) simp_all
    with m0 have "m \<le> digitsValue m (takeWhile isDigit cs)"
      using digitsValue_bounds[of "takeWhile isDigit cs" m] by simp
    with v have mle: "m \<le> maxUint64" by simp
    with m0 have nle: "n \<le> maxUint64" by simp
    from True Cons.prems(1) have nd: "\<not> list_all isDigit cs" by simp
    have "ParseUint_loop n (c # cs) = ParseUint_loop m cs"
      using ParseUint_loop_digit[OF True Cons.prems(2) nle, of cs] mle
      by (simp add: m_def)
    also have "\<dots> = (0, Some ErrSyntax)"
      using Cons.IH[OF nd m0(1) v] .
    finally show ?thesis .
  qed
qed

lemma ParseUint_loop_bounds:
  assumes "0 \<le> n" and "n \<le> maxUint64"
  shows "0 \<le> fst (ParseUint_loop n cs) \<and> fst (ParseUint_loop n cs) \<le> maxUint64"
  using assms
proof (induction cs arbitrary: n)
  case Nil
  then show ?case by simp
next
  case (Cons c cs)
  show ?case
  proof (cases "isDigit c")
    case False
    then show ?thesis by (simp add: maxUint64_def)
  next
    case True
    define m where "m = n * 10 + ((of_char c :: int) - 48)"
    from True have d: "48 \<le> (of_char c :: int)" by (simp add: isDigit_int)
    with Cons.prems(1) have m0: "0 \<le> m" by (simp add: m_def)
    show ?thesis
    proof (cases "maxUint64 < m")
      case True
      then show ?thesis
        using ParseUint_loop_digit[OF \<open>isDigit c\<close> Cons.prems, of cs]
        by (simp add: m_def [symmetric] maxUint64_def)
    next
      case False
      then have "m \<le> maxUint64" by simp
      from Cons.IH[OF m0 this] False show ?thesis
        using ParseUint_loop_digit[OF \<open>isDigit c\<close> Cons.prems, of cs]
        by (simp add: m_def [symmetric])
    qed
  qed
qed

lemma ParseUint_bounds: "0 \<le> fst (ParseUint s) \<and> fst (ParseUint s) \<le> maxUint64"
  using ParseUint_loop_bounds[of 0 s] by (simp add: ParseUint_def maxUint64_def)

lemma ParseInt_range: "- (2 ^ 63) \<le> fst (ParseInt s) \<and> fst (ParseInt s) < 2 ^ 63"
  using ParseUint_bounds[of "if hd s = CHR ''+'' \<or> hd s = CHR ''-'' then tl s else s"]
  by (auto simp: ParseInt_def Let_def)

lemma ParseInt_negative: "fst (ParseInt s) < 0 \<Longrightarrow> s \<noteq> [] \<and> hd s = CHR ''-''"
  using ParseUint_bounds[of "if hd s = CHR ''+'' \<or> hd s = CHR ''-'' then tl s else s"]
  by (auto simp: ParseInt_def Let_def split: if_splits)

lemma Atoi_fast:
  assumes "0 < length s" and "length s < 19"
  shows "Atoi s =
           (if unsigned s = [] \<or> \<not> list_all isDigit (unsigned s) then (0, Some ErrSyntax)
            else (if hd s = CHR ''-'' then - digitsValue 0 (unsigned s)
                  else digitsValue 0 (unsigned s), None))"
proof -
  from assms(1) have ne: "s \<noteq> []" by auto
  have u: "(if hd s = CHR ''-'' \<or> hd s = CHR ''+'' then tl s else s) = unsigned s"
    using ne by (auto simp: unsigned_def)
  have sign: "unsigned s = [] \<Longrightarrow> hd s = CHR ''-'' \<or> hd s = CHR ''+''"
    using ne by (auto simp: unsigned_def split: if_splits)
  show ?thesis
    using assms sign
    by (auto simp: Atoi_def Let_def u Atoi_loop_eq simp del: Atoi_loop.simps)
qed

lemma Atoi_slow:
  assumes "\<not> (0 < length s \<and> length s < 19)"
  shows "Atoi s = ParseInt s"
  unfolding Atoi_def by (rule if_not_P[OF assms])

lemma Atoi_range: "- (2 ^ 63) \<le> fst (Atoi s) \<and> fst (Atoi s) < 2 ^ 63"
proof (cases "0 < length s \<and> length s < 19")
  case False
  then show ?thesis using ParseInt_range[of s] by (simp add: Atoi_slow)
next
  case True
  show ?thesis
  proof (cases "unsigned s = [] \<or> \<not> list_all isDigit (unsigned s)")
    case bad: True
    with True show ?thesis by (simp add: Atoi_fast)
  next
    case good: False
    then have b: "0 \<le> digitsValue 0 (unsigned s)"
      "digitsValue 0 (unsigned s) < 10 ^ length (unsigned s)"
      using digitsValue_bounds[of "unsigned s" 0] by simp_all
    have "length (unsigned s) \<le> 18" using True by (auto simp: unsigned_def)
    then have "(10::int) ^ length (unsigned s) \<le> 10 ^ 18"
      by (intro power_increasing) simp_all
    with b have "digitsValue 0 (unsigned s) < 10 ^ 18" by linarith
    with b(1) True good show ?thesis by (simp add: Atoi_fast)
  qed
qed

lemma Atoi_negative: "fst (Atoi s) < 0 \<Longrightarrow> s \<noteq> [] \<and> hd s = CHR ''-''"
proof (cases "0 < length s \<and> length s < 19")
  case False
  assume "fst (Atoi s) < 0"
  with False show ?thesis using ParseInt_negative[of s] by (simp add: Atoi_slow)
next
  case True
  assume neg: "fst (Atoi s) < 0"
  show ?thesis
  proof (cases "unsigned s = [] \<or> \<not> list_all isDigit (unsigned s)")
    case bad: True
    with True neg show ?thesis by (simp add: Atoi_fast)
  next
    case good: False
    then have "0 \<le> digitsValue 0 (unsigned s)"
      using digitsValue_nonneg[of "unsigned s" 0] by simp
    with True good neg show ?thesis by (auto simp: Atoi_fast split: if_splits)
  qed
qed

lemma Atoi_non_numeric:
  assumes "\<not> numeric s" and "digitsValue 0 (leadingDigits s) < 2 ^ 64"
  shows "Atoi s = (0, Some ErrSyntax)"
proof (cases "0 < length s \<and> length s < 19")
  case True
  with assms(1) show ?thesis by (simp add: Atoi_fast numeric_def)
next
  case False
  show ?thesis
  proof (cases "s = []")
    case True
    then show ?thesis by (simp add: Atoi_def ParseInt_def)
  next
    case ne: False
    have u: "(if hd s = CHR ''+'' \<or> hd s = CHR ''-'' then tl s else s) = unsigned s"
      using ne by (auto simp: unsigned_def)
    have "ParseUint (unsigned s) = (0, Some ErrSyntax)"
    proof (cases "unsigned s = []")
      case True
      then show ?thesis by (simp add: ParseUint_def)
    next
      case False
      with assms(1) have "\<not> list_all isDigit (unsigned s)" by (simp add: numeric_def)
      moreover from assms(2) have "digitsValue 0 (takeWhile isDigit (unsigned s)) \<le> maxUint64"
        by (simp add: leadingDigits_def maxUint64_def)
      ultimately have "ParseUint_loop 0 (unsigned s) = (0, Some ErrSyntax)"
        by (intro ParseUint_loop_syntax) simp_all
      with False show ?thesis by (simp add: ParseUint_def)
    qed
    with False ne show ?thesis by (simp add: Atoi_slow ParseInt_def Let_def u)
  qed
qed

lemma Atoi_examples:
  "Atoi ''7'' = (7, None)" "Atoi ''-5'' = (- 5, None)" "Atoi ''seven'' = (0, Some ErrSyntax)"
  "Atoi ''<nil>'' = (0, Some ErrSyntax)"
  by (simp_all add: Atoi_fast unsigned_def isDigit_def)

lemma Atoi_overflow_example:
  "Atoi ''99999999999999999999x'' = (9223372036854775807, Some ErrRange)"
  by (simp add: Atoi_def ParseInt_def ParseUint_def Let_def isDigit_def maxUint64_def)

lemma Atoi_overflow_negative_example:
  "Atoi ''-99999999999999999999x'' = (- 9223372036854775808, Some ErrRange)"
  by (simp add: Atoi_def ParseInt_def ParseUint_def Let_def isDigit_def maxUint64_def)

lemma parseAuctions_map:
  "map auction_ID (parseAuctions rawData) =
     map (\<lambda>raw. fst (Atoi (sprintv (index raw ''id'')))) rawData"
  by (induction rawData) simp_all

lemma parseBids_map:
  "map bid_AuctionID (parseBids rawData) =
     map (\<lambda>raw. fst (Atoi (sprintv (index raw ''auctionId'')))) rawData"
  by (induction rawData) simp_all

lemma length_parseAuctions: "length (parseAuctions rawData) = length rawData"
  by (induction rawData) simp_all

lemma length_parseBids: "length (parseBids rawData) = length rawData"
  by (induction rawData) simp_all

lemma parseAuctions_nth:
  assumes "i < length rawData"
  shows "auction_ID (parseAuctions rawData ! i) = fst (Atoi (sprintv (index (rawData ! i) ''id'')))"
proof -
  have "auction_ID (parseAuctions rawData ! i) = map auction_ID (parseAuctions rawData) ! i"
    using assms by (simp add: length_parseAuctions)
  also have "\<dots> = fst (Atoi (sprintv (index (rawData ! i) ''id'')))"
    using assms by (simp add: parseAuctions_map)
  finally show ?thesis .
qed

lemma parseBids_nth:
  assumes "i < length rawData"
  shows "bid_AuctionID (parseBids rawData ! i) =
           fst (Atoi (sprintv (index (rawData ! i) ''auctionId'')))"
proof -
  have "bid_AuctionID (parseBids rawData ! i) = map bid_AuctionID (parseBids rawData) ! i"
    using assms by (simp add: length_parseBids)
  also have "\<dots> = fst (Atoi (sprintv (index (rawData ! i) ''auctionId'')))"
    using assms by (simp add: parseBids_map)
  finally show ?thesis .
qed

text \<open>
  C6 (as amended). \<^verbatim>\<open>parseAuctions\<close> and \<^verbatim>\<open>parseBids\<close> return one record for each raw
  record and no error. An identifier field whose text is not a decimal numeral (also a
  missing one) parses to zero, provided the digits that the text starts with, after its
  sign, stand for a number below \<open>2\<^sup>6\<^sup>4\<close>. A parsed auction identifier is a 64-bit
  integer; it is negative only when the text of the field starts with a minus sign.
\<close>

theorem parse_identifiers:
  "length (parseAuctions rawData) = length rawData \<and>
   length (parseBids rawData) = length rawData \<and>
   (\<forall>i<length rawData.
      (\<not> numeric (sprintv (index (rawData ! i) ''id'')) \<and>
       digitsValue 0 (leadingDigits (sprintv (index (rawData ! i) ''id''))) < 2 ^ 64 \<longrightarrow>
         auction_ID (parseAuctions rawData ! i) = 0) \<and>
      (\<not> numeric (sprintv (index (rawData ! i) ''auctionId'')) \<and>
       digitsValue 0 (leadingDigits (sprintv (index (rawData ! i) ''auctionId''))) < 2 ^ 64 \<longrightarrow>
         bid_AuctionID (parseBids rawData ! i) = 0) \<and>
      (auction_ID (parseAuctions rawData ! i) < 0 \<longrightarrow>
         sprintv (index (rawData ! i) ''id'') \<noteq> [] \<and>
         hd (sprintv (index (rawData ! i) ''id'')) = CHR ''-'') \<and>
      - (2 ^ 63) \<le> auction_ID (parseAuctions rawData ! i) \<and>
      auction_ID (parseAuctions rawData ! i) < 2 ^ 63)"
proof -
  have "\<And>i. i < length rawData \<Longrightarrow>
      (\<not> numeric (sprintv (index (rawData ! i) ''id'')) \<and>
       digitsValue 0 (leadingDigits (sprintv (index (rawData ! i) ''id''))) < 2 ^ 64 \<longrightarrow>
         auction_ID (parseAuctions rawData ! i) = 0) \<and>
      (\<not> numeric (sprintv (index (rawData ! i) ''auctionId'')) \<and>
       digitsValue 0 (leadingDigits (sprintv (index (rawData ! i) ''auctionId''))) < 2 ^ 64 \<longrightarrow>
         bid_AuctionID (parseBids rawData ! i) = 0) \<and>
      (auction_ID (parseAuctions rawData ! i) < 0 \<longrightarrow>
         sprintv (index (rawData ! i) ''id'') \<noteq> [] \<and>
         hd (sprintv (index (rawData ! i) ''id'')) = CHR ''-'') \<and>
      - (2 ^ 63) \<le> auction_ID (parseAuctions rawData ! i) \<and>
      auction_ID (parseAuctions rawData ! i) < 2 ^ 63"
  proof -
    fix i
    assume i: "i < length rawData"
    let ?a = "sprintv (index (rawData ! i) ''id'')"
    let ?b = "sprintv (index (rawData ! i) ''auctionId'')"
    have a: "auction_ID (parseAuctions rawData ! i) = fst (Atoi ?a)"
      using i by (rule parseAuctions_nth)
    have b: "bid_AuctionID (parseBids rawData ! i) = fst (Atoi ?b)"
      using i by (rule parseBids_nth)
    show "(\<not> numeric ?a \<and> digitsValue 0 (leadingDigits ?a) < 2 ^ 64 \<longrightarrow>
             auction_ID (parseAuctions rawData ! i) = 0) \<and>
          (\<not> numeric ?b \<and> digitsValue 0 (leadingDigits ?b) < 2 ^ 64 \<longrightarrow>
             bid_AuctionID (parseBids rawData ! i) = 0) \<and>
          (auction_ID (parseAuctions rawData ! i) < 0 \<longrightarrow> ?a \<noteq> [] \<and> hd ?a = CHR ''-'') \<and>
          - (2 ^ 63) \<le> auction_ID (parseAuctions rawData ! i) \<and>
          auction_ID (parseAuctions rawData ! i) < 2 ^ 63"
    proof (intro conjI impI)
      assume "\<not> numeric ?a \<and> digitsValue 0 (leadingDigits ?a) < 2 ^ 64"
      then have "Atoi ?a = (0, Some ErrSyntax)" by (intro Atoi_non_numeric) simp_all
      with a show "auction_ID (parseAuctions rawData ! i) = 0" by simp
    next
      assume "\<not> numeric ?b \<and> digitsValue 0 (leadingDigits ?b) < 2 ^ 64"
      then have "Atoi ?b = (0, Some ErrSyntax)" by (intro Atoi_non_numeric) simp_all
      with b show "bid_AuctionID (parseBids rawData ! i) = 0" by simp
    next
      assume "auction_ID (parseAuctions rawData ! i) < 0"
      with a have "fst (Atoi ?a) < 0" by simp
      then show "?a \<noteq> []" and "hd ?a = CHR ''-''" using Atoi_negative[of ?a] by simp_all
    next
      show "- (2 ^ 63) \<le> auction_ID (parseAuctions rawData ! i)"
        and "auction_ID (parseAuctions rawData ! i) < 2 ^ 63"
        using Atoi_range[of ?a] a by simp_all
    qed
  qed
  then show ?thesis
    by (simp only: length_parseAuctions length_parseBids) blast
qed

theorem parse_identifiers_witness:
  "length (parseAuctions
        [[(''id'', JString ''7'')], [(''id'', JString ''seven'')], [(''issue'', JString ''x'')],
         [(''id'', JString ''-5'')]]) = 4 \<and>
   auction_ID (parseAuctions
        [[(''id'', JString ''7'')], [(''id'', JString ''seven'')], [(''issue'', JString ''x'')],
         [(''id'', JString ''-5'')]] ! 1) = 0 \<and>
   auction_ID (parseAuctions
        [[(''id'', JString ''7'')], [(''id'', JString ''seven'')], [(''issue'', JString ''x'')],
         [(''id'', JString ''-5'')]] ! 3) = - 5 \<and>
   hd (sprintv (index [(''id'', JString ''-5'')] ''id'')) = CHR ''-''"
proof -
  let ?raw = "[[(''id'', JString ''7'')], [(''id'', JString ''seven'')], [(''issue'', JString ''x'')],
         [(''id'', JString ''-5'')]]"
  note all = parse_identifiers[of ?raw]
  from all have len: "length (parseAuctions ?raw) = 4" by simp
  have i1: "(1::nat) < length ?raw" and i3: "(3::nat) < length ?raw" by simp_all
  have "\<not> numeric (sprintv (index (?raw ! 1) ''id'')) \<and>
        digitsValue 0 (leadingDigits (sprintv (index (?raw ! 1) ''id''))) < 2 ^ 64"
    by (simp add: index_def numeric_def leadingDigits_def unsigned_def isDigit_def)
  with all i1 have one: "auction_ID (parseAuctions ?raw ! 1) = 0" by blast
  have three: "auction_ID (parseAuctions ?raw ! 3) = - 5"
    by (simp add: index_def Atoi_examples numeral_3_eq_3)
  then have "auction_ID (parseAuctions ?raw ! 3) < 0" by simp
  with all i3 have "hd (sprintv (index (?raw ! 3) ''id'')) = CHR ''-''" by blast
  then have "hd (sprintv (index [(''id'', JString ''-5'')] ''id'')) = CHR ''-''"
    by (simp add: numeral_3_eq_3)
  with len one three show ?thesis by blast
qed

text \<open>
  C6 as stated fails twice. The identifier \<^verbatim>\<open>"-5"\<close> parses to \<open>-5\<close>, which is
  negative. The identifier \<^verbatim>\<open>"99999999999999999999x"\<close> is not a numeral and parses to
  \<open>2\<^sup>6\<^sup>3 - 1\<close>, not to zero: its twenty digits leave the range of \<^verbatim>\<open>uint64\<close> before
  the letter is read, and the parser keeps the value of the range error.
\<close>

theorem parseAuctions_identifier_counterexample:
  "\<not> 0 \<le> auction_ID (hd (parseAuctions [[(''id'', JString ''-5'')]])) \<and>
   \<not> numeric ''99999999999999999999x'' \<and>
   auction_ID (hd (parseAuctions [[(''id'', JString ''99999999999999999999x'')]])) =
     9223372036854775807"
  by (simp add: index_def Atoi_examples Atoi_overflow_example numeric_def unsigned_def
      isDigit_def)

section \<open>The balance of an address\<close>

lemma runCommand_first_success:
  "ex w (name # arg) = Exited out \<Longrightarrow>
     runCommand ex name arg w = ((TrimSpace out, None), w @ [Exec 0 (name # arg)])"
  by (simp add: runCommand_def runCommand_loop.simps[of ex name arg 0] maxRetries_def)

text \<open>
  C10. When \<^verbatim>\<open>get-balance\<close> succeeds (the address passes validation and the balances
  are fetched without error), the summary is \<^verbatim>\<open>Address X has <amount> <denom>\<close> with
  the amount and the denomination of the first balance, and \<^verbatim>\<open>0 token\<close> when there is
  no balance; the details carry the whole list. The balances after the first do not occur
  in the summary.
\<close>

theorem getBalanceHandler_summary:
  assumes "TrimSpace Address \<noteq> ''''"
    and "isValidCosmosAddress (TrimSpace Address)"
    and "getBalanceForAddress e (TrimSpace Address) w = ((balances, None), w1)"
  shows "getBalanceHandler e Address w =
           (BalanceJSON
              \<lparr>br_Summary =
                 ''Address '' @ TrimSpace Address @ '' has '' @
                 (case balances of
                    [] \<Rightarrow> ''0 token''
                  | first # others \<Rightarrow> balance_Amount first @ '' '' @ balance_Denom first),
               br_Address = TrimSpace Address,
               br_Balances = balances\<rparr>, w1)"
  using assms by (cases balances) (simp_all add: getBalanceHandler_def Let_def)

lemma TrimSpace_sample_address:
  "TrimSpace ''cosmos1qypqxpq9qcrsszg2pvxq6rs0zqg3yyc5a''
     = ''cosmos1qypqxpq9qcrsszg2pvxq6rs0zqg3yyc5a''"
  by (simp add: TrimSpace_def spaceRunes_def spaceWidth_def HasPrefix_def trimLeftFunc.simps)

lemma isValidCosmosAddress_sample:
  "isValidCosmosAddress ''cosmos1qypqxpq9qcrsszg2pvxq6rs0zqg3yyc5a''"
  by (simp add: isValidCosmosAddress_def TrimSpace_sample_address HasPrefix_def)

lemma TrimSpace_balancesText: "TrimSpace balancesText = balancesText"
  by (simp add: balancesText_def TrimSpace_def spaceRunes_def spaceWidth_def HasPrefix_def
      trimLeftFunc.simps)

lemma TrimSpace_noBalancesText: "TrimSpace noBalancesText = noBalancesText"
  by (simp add: noBalancesText_def TrimSpace_def spaceRunes_def spaceWidth_def HasPrefix_def
      trimLeftFunc.simps)

lemma getBalanceForAddress_balances:
  "getBalanceForAddress (constEnv balancesText balancesObject) address w =
     (([\<lparr>balance_Denom = ''token'', balance_Amount = ''100''\<rparr>,
        \<lparr>balance_Denom = ''stake'', balance_Amount = ''5''\<rparr>], None),
      w @ [Exec 0 [''/usr/local/bin/swechaind'', ''query'', ''bank'', ''balances'', address,
                   ''--keyring-backend'', ''test'', ''--output'', ''json'']])"
  by (simp add: getBalanceForAddress_def constEnv_def runCommand_first_success
      TrimSpace_balancesText index_def balancesObject_def)

lemma getBalanceForAddress_noBalances:
  "getBalanceForAddress (constEnv noBalancesText noBalancesObject) address w =
     (([], None),
      w @ [Exec 0 [''/usr/local/bin/swechaind'', ''query'', ''bank'', ''balances'', address,
                   ''--keyring-backend'', ''test'', ''--output'', ''json'']])"
  by (simp add: getBalanceForAddress_def constEnv_def runCommand_first_success
      TrimSpace_noBalancesText index_def noBalancesObject_def)

theorem getBalanceHandler_summary_witness:
  "getBalanceHandler (constEnv balancesText balancesObject)
     '' cosmos1qypqxpq9qcrsszg2pvxq6rs0zqg3yyc5a '' [] =
     (BalanceJSON
        \<lparr>br_Summary = ''Address cosmos1qypqxpq9qcrsszg2pvxq6rs0zqg3yyc5a has 100 token'',
         br_Address = ''cosmos1qypqxpq9qcrsszg2pvxq6rs0zqg3yyc5a'',
         br_Balances = [\<lparr>balance_Denom = ''token'', balance_Amount = ''100''\<rparr>,
                        \<lparr>balance_Denom = ''stake'', balance_Amount = ''5''\<rparr>]\<rparr>,
      [Exec 0 [''/usr/local/bin/swechaind'', ''query'', ''bank'', ''balances'',
               ''cosmos1qypqxpq9qcrsszg2pvxq6rs0zqg3yyc5a'',
               ''--keyring-backend'', ''test'', ''--output'', ''json'']]) \<and>
   getBalanceHandler (constEnv noBalancesText noBalancesObject)
     '' cosmos1qypqxpq9qcrsszg2pvxq6rs0zqg3yyc5a '' [] =
     (BalanceJSON
        \<lparr>br_Summary = ''Address cosmos1qypqxpq9qcrsszg2pvxq6rs0zqg3yyc5a has 0 token'',
         br_Address = ''cosmos1qypqxpq9qcrsszg2pvxq6rs0zqg3yyc5a'',
         br_Balances = []\<rparr>,
      [Exec 0 [''/usr/local/bin/swechaind'', ''query'', ''bank'', ''balances'',
               ''cosmos1qypqxpq9qcrsszg2pvxq6rs0zqg3yyc5a'',
               ''--keyring-backend'', ''test'', ''--output'', ''json'']])"
proof -
  have t: "TrimSpace '' cosmos1qypqxpq9qcrsszg2pvxq6rs0zqg3yyc5a ''
             = ''cosmos1qypqxpq9qcrsszg2pvxq6rs0zqg3yyc5a''"
    by (rule TrimSpace_address40)
  have ne: "TrimSpace '' cosmos1qypqxpq9qcrsszg2pvxq6rs0zqg3yyc5a '' \<noteq> ''''"
    unfolding t by simp
  have v: "isValidCosmosAddress (TrimSpace '' cosmos1qypqxpq9qcrsszg2pvxq6rs0zqg3yyc5a '')"
    unfolding t by (rule isValidCosmosAddress_sample)
  from getBalanceHandler_summary[OF ne v getBalanceForAddress_balances]
    getBalanceHandler_summary[OF ne v getBalanceForAddress_noBalances]
  show ?thesis unfolding t by simp
qed

end
